theory Spec2Isabelle
  imports Main "HOL-Library.Word"
begin

section \<open>libSQL vector search: the vector value, its codec and the index integration\<close>

text \<open>
  A shallow embedding of \<^verbatim>\<open>src/libsql-sqlite3/src/vector.c\<close> and \<^verbatim>\<open>vectorInt.h\<close>.
  C strings are \<^typ>\<open>string\<close> values read up to the first NUL character (or the end of the
  list, which stands for the terminator); arrays are functions from the index to the cell,
  so that a store is a function update and the index of every store is visible.
\<close>

subsection \<open>Constants of \<^verbatim>\<open>vector.c\<close> and \<^verbatim>\<open>vectorInt.h\<close>\<close>

definition MAX_VECTOR_SZ :: nat where
  "MAX_VECTOR_SZ = 16000"

definition MAX_FLOAT_CHAR_SZ :: nat where
  "MAX_FLOAT_CHAR_SZ = 1024"

definition VECTOR_TYPE_FLOAT32 :: nat where
  "VECTOR_TYPE_FLOAT32 = 0"

definition VECTOR_FLAGS_STATIC :: nat where
  "VECTOR_FLAGS_STATIC = 1"

definition VECTOR_DISTANCE_COS :: nat where
  "VECTOR_DISTANCE_COS = 0"

text \<open>
  \<^verbatim>\<open>struct Vector\<close>: the type tag, the flags, the number of dimensions and the element
  buffer \<^verbatim>\<open>data\<close>, read through the index. The element type \<^typ>\<open>'f\<close> stands for
  \<^verbatim>\<open>float\<close>.
\<close>

record 'f Vector =
  type :: nat
  flags :: nat
  dims :: nat
  data :: "nat \<Rightarrow> 'f"

subsection \<open>Character classes of the host engine\<close>

text \<open>
  Modelled from the spec: \<^verbatim>\<open>sqlite3Isspace\<close> (\<^verbatim>\<open>sqliteInt.h\<close>, over the character-class
  table of \<^verbatim>\<open>global.c\<close>) is not under src/. The spec speaks of whitespace; it is taken as the
  ASCII whitespace: space, tab, line feed, vertical tab, form feed, carriage return.
\<close>

definition sqlite3Isspace :: "char \<Rightarrow> bool" where
  "sqlite3Isspace c = (c \<in> {CHR '' '', CHR 0x09, CHR 0x0A, CHR 0x0B, CHR 0x0C, CHR 0x0D})"

text \<open>
  Modelled from the spec: \<^verbatim>\<open>sqlite3Isdigit\<close> (\<^verbatim>\<open>sqliteInt.h\<close>, over the same table) is not
  under src/. The spec speaks of the digits of an integer; they are the decimal digits 0
  to 9.
\<close>

definition sqlite3Isdigit :: "char \<Rightarrow> bool" where
  "sqlite3Isdigit c = (c \<in> set ''0123456789'')"

subsection \<open>Text decoding: \<^verbatim>\<open>vectorParseText\<close>\<close>

text \<open>
  The values the host engine hands to the decoder. A text value holds what
  \<^verbatim>\<open>sqlite3_value_text\<close> returns: the string, or \<open>None\<close> for the null pointer.
\<close>

datatype sqlite3_value =
    SQLITE_NULL
  | SQLITE_INTEGER int
  | SQLITE_FLOAT
  | SQLITE_TEXT "string option"
  | SQLITE_BLOB "8 word list"

text \<open>
  Every failure of the decoder returns \<open>-1\<close>; the failures differ in the message the code
  formats. The error names are the spec's, one for each message:
  \<^item> \<open>InvalidInputKind\<close>: "invalid vector: not a text type", "invalid vector: NULL",
    "invalid vector: not a text or blob type";
  \<^item> \<open>MalformedLiteral\<close>: "invalid vector: doesn't start with ']':";
  \<^item> \<open>ElementTooLong\<close>: "float too big while parsing vector: ...";
  \<^item> \<open>InvalidNumber\<close>: "invalid number: ...";
  \<^item> \<open>TooManyDimensions\<close>: "vector is larger than the maximum: (16000)";
  \<^item> \<open>UnterminatedLiteral\<close>: "malformed vector, doesn't end with ']'";
  \<^item> \<open>InvalidBlob\<close>: a failure reported by the blob decoder;
  \<^item> \<open>UnsupportedType\<close>: no message; the \<open>-1\<close> returned past \<^verbatim>\<open>assert(0)\<close> for a vector
    type other than \<open>VECTOR_TYPE_FLOAT32\<close>.
\<close>

datatype parse_error =
    InvalidInputKind
  | MalformedLiteral
  | ElementTooLong
  | InvalidNumber
  | TooManyDimensions
  | UnterminatedLiteral
  | InvalidBlob
  | UnsupportedType

text \<open>
  The local variables of \<^verbatim>\<open>vectorParseText\<close> that its loop changes: the scratch buffer
  \<^verbatim>\<open>elBuf\<close> (declared with \<open>MAX_FLOAT_CHAR_SZ\<close> cells), \<^verbatim>\<open>bufidx\<close>, \<^verbatim>\<open>vecidx\<close> and
  the element buffer \<^verbatim>\<open>elems = v->data\<close>. The field \<open>overrun\<close> is not a variable of the
  code: it records that some store \<^verbatim>\<open>elBuf[bufidx++] = this\<close> was made at an index outside
  the declared array.
\<close>

record 'f parse_locals =
  elBuf :: "nat \<Rightarrow> char"
  bufidx :: nat
  vecidx :: nat
  elems :: "nat \<Rightarrow> 'f"
  overrun :: bool

text \<open>The first \<open>bufidx\<close> cells of \<open>elBuf\<close>: what \<^verbatim>\<open>sqlite3AtoF(elBuf, &el, bufidx, ..)\<close> reads.\<close>

definition elText :: "'f parse_locals \<Rightarrow> string" where
  "elText s = map (elBuf s) [0..<bufidx s]"

text \<open>
  How the loop of lines 164 to 189 is left: by one of its \<^verbatim>\<open>return -1\<close> statements, or
  through its condition, with the rest of the input (\<open>zStr\<close>) and the locals.
\<close>

datatype 'f loop_exit =
    Return parse_error "'f parse_locals"
  | LoopEnd string "'f parse_locals"

text \<open>
  The loop. \<^verbatim>\<open>sqlite3AtoF\<close> (\<^verbatim>\<open>util.c\<close>) is not under src/: it is the parameter \<open>AtoF\<close>,
  which maps the text read from the buffer to the status (positive when the text is a
  number) and to the value as it is stored in the \<^verbatim>\<open>float\<close> cell.
\<close>

fun parseElems :: "(string \<Rightarrow> int \<times> 'f) \<Rightarrow> string \<Rightarrow> 'f parse_locals \<Rightarrow> 'f loop_exit" where
  "parseElems AtoF [] s = LoopEnd [] s"
| "parseElems AtoF (c # z) s =
     (if c = CHR 0x00 \<or> c = CHR '']'' then LoopEnd (c # z) s
      else if sqlite3Isspace c then parseElems AtoF z s
      else if c \<noteq> CHR '','' \<and> c \<noteq> CHR '']'' then
        (let s1 = s\<lparr>elBuf := (elBuf s)(bufidx s := c),
                    overrun := overrun s \<or> MAX_FLOAT_CHAR_SZ \<le> bufidx s,
                    bufidx := bufidx s + 1\<rparr>
         in if MAX_FLOAT_CHAR_SZ < bufidx s1 then Return ElementTooLong s1
            else parseElems AtoF z s1)
      else
        (case AtoF (elText s) of (r, el) \<Rightarrow>
           if r \<le> 0 then Return InvalidNumber s
           else
             (let s1 = s\<lparr>bufidx := 0, elBuf := (\<lambda>_. CHR 0x00),
                         elems := (elems s)(vecidx s := el), vecidx := vecidx s + 1\<rparr>
              in if MAX_VECTOR_SZ \<le> vecidx s1 then Return TooManyDimensions s1
                 else parseElems AtoF z s1)))"

text \<open>
  What a call of the decoder leaves behind: the value returned, the error whose message
  was formatted (if any), the vector \<^verbatim>\<open>*v\<close> after the call, and whether a store outside
  \<^verbatim>\<open>elBuf\<close> was made.
\<close>

record 'f parse_out =
  rc :: int
  err :: "parse_error option"
  vec :: "'f Vector"
  elBufOverrun :: bool

definition parseFail :: "parse_error \<Rightarrow> 'f Vector \<Rightarrow> 'f parse_locals \<Rightarrow> 'f parse_out" where
  "parseFail e v s = \<lparr>rc = -1, err = Some e, vec = v\<lparr>data := elems s\<rparr>, elBufOverrun = overrun s\<rparr>"

text \<open>Lines 190 to 206: the last element, the closing bracket, and the dimension count.\<close>

definition parseTail :: "(string \<Rightarrow> int \<times> 'f) \<Rightarrow> 'f Vector \<Rightarrow> string \<Rightarrow> 'f parse_locals \<Rightarrow> 'f parse_out" where
  "parseTail AtoF v z s =
     (let closing = (\<lambda>s2.
            if (case z of [] \<Rightarrow> CHR 0x00 | c # _ \<Rightarrow> c) \<noteq> CHR '']''
            then parseFail UnterminatedLiteral v s2
            else \<lparr>rc = int (vecidx s2), err = None,
                  vec = v\<lparr>data := elems s2, dims := vecidx s2\<rparr>, elBufOverrun = overrun s2\<rparr>)
      in if bufidx s \<noteq> 0 then
           (case AtoF (elText s) of (r, el) \<Rightarrow>
              if r \<le> 0 then parseFail InvalidNumber v s
              else
                (let s1 = s\<lparr>elems := (elems s)(vecidx s := el), vecidx := vecidx s + 1\<rparr>
                 in if MAX_VECTOR_SZ \<le> vecidx s1 then parseFail TooManyDimensions v s1
                    else closing s1))
         else closing s)"

definition parseBody :: "(string \<Rightarrow> int \<times> 'f) \<Rightarrow> 'f Vector \<Rightarrow> string \<Rightarrow> 'f parse_locals \<Rightarrow> 'f parse_out" where
  "parseBody AtoF v z s =
     (case parseElems AtoF z s of
        Return e s1 \<Rightarrow> parseFail e v s1
      | LoopEnd z1 s1 \<Rightarrow> parseTail AtoF v z1 s1)"

definition vectorParseText :: "(string \<Rightarrow> int \<times> 'f) \<Rightarrow> sqlite3_value \<Rightarrow> 'f Vector \<Rightarrow> 'f parse_out" where
  "vectorParseText AtoF arg v =
     (case arg of
        SQLITE_TEXT t \<Rightarrow>
          (case t of
             None \<Rightarrow> \<lparr>rc = 0, err = None, vec = v, elBufOverrun = False\<rparr>
           | Some zStr \<Rightarrow>
               (case dropWhile sqlite3Isspace zStr of
                  [] \<Rightarrow> \<lparr>rc = -1, err = Some MalformedLiteral, vec = v, elBufOverrun = False\<rparr>
                | c # z \<Rightarrow>
                    if c \<noteq> CHR ''['' then
                      \<lparr>rc = -1, err = Some MalformedLiteral, vec = v, elBufOverrun = False\<rparr>
                    else parseBody AtoF v z
                           \<lparr>elBuf = (\<lambda>_. CHR 0x00), bufidx = 0, vecidx = 0,
                            elems = data v, overrun = False\<rparr>))
      | _ \<Rightarrow> \<lparr>rc = -1, err = Some InvalidInputKind, vec = v, elBufOverrun = False\<rparr>)"

subsection \<open>The number syntax of the host engine\<close>

text \<open>
  \<^verbatim>\<open>sqlite3AtoF\<close> (\<^verbatim>\<open>util.c\<close>) is not under src/. The decoder takes it as a parameter; the
  examples need one concrete number syntax, which the next three definitions give.
\<close>

text \<open>
  Modelled from the spec: the optional sign of a numeric literal, part of the number syntax
  of \<^verbatim>\<open>sqlite3AtoF\<close>, which is not under src/. The text after a leading \<open>+\<close> or \<open>-\<close>, if there
  is one.
\<close>

definition optSign :: "string \<Rightarrow> string" where
  "optSign z = (case z of [] \<Rightarrow> [] | c # r \<Rightarrow> if c = CHR ''+'' \<or> c = CHR ''-'' then r else z)"

text \<open>
  Modelled from the spec: the number syntax of \<^verbatim>\<open>sqlite3AtoF\<close>, which is not under src/. The
  spec says that each accumulated literal is parsed as a floating-point number with
  locale-independent parsing, that a non-numeric accumulation fails, and that each element
  is a decimal or scientific-notation floating literal. Such a literal is an optional sign,
  decimal digits with an optional fraction point (at least one digit in all), and an
  optional exponent (\<open>e\<close> or \<open>E\<close>, an optional sign, at least one digit).
\<close>

definition isFloatLiteral :: "string \<Rightarrow> bool" where
  "isFloatLiteral z =
     (let z1 = optSign z;
          ip = takeWhile sqlite3Isdigit z1;
          z2 = dropWhile sqlite3Isdigit z1;
          z3 = (case z2 of [] \<Rightarrow> [] | c # r \<Rightarrow> if c = CHR ''.'' then r else z2);
          fp = takeWhile sqlite3Isdigit z3;
          z4 = dropWhile sqlite3Isdigit z3
      in (ip \<noteq> [] \<or> fp \<noteq> []) \<and>
         (case z4 of
            [] \<Rightarrow> True
          | c # r \<Rightarrow> (c = CHR ''e'' \<or> c = CHR ''E'') \<and> optSign r \<noteq> [] \<and>
                     list_all sqlite3Isdigit (optSign r)))"

text \<open>
  Modelled from the spec: \<^verbatim>\<open>sqlite3AtoF\<close> (\<^verbatim>\<open>util.c\<close>), which is not under src/, as far as
  the examples need it. It returns the status 1 for a floating literal and 0 for any other
  text; the value stays symbolic: it is the text of the literal.
\<close>

definition specAtoF :: "string \<Rightarrow> int \<times> string" where
  "specAtoF z = (if isFloatLiteral z then 1 else 0, z)"

subsection \<open>Vocabulary for the statements about text decoding\<close>

text \<open>
  The literal \<open>[e1,...,en]\<close> is \<open>''[''\<close>, the elements joined by commas, and \<open>'']''\<close>. An
  element may hold whitespace, which the decoder skips; what reaches the scratch buffer is
  the element with its whitespace removed.
\<close>

fun commaJoin :: "string list \<Rightarrow> string" where
  "commaJoin [] = []"
| "commaJoin [e] = e"
| "commaJoin (e # es) = e @ CHR '','' # commaJoin es"

definition strip :: "string \<Rightarrow> string" where
  "strip e = filter (\<lambda>c. \<not> sqlite3Isspace c) e"

definition elemChar :: "char \<Rightarrow> bool" where
  "elemChar c = (c \<noteq> CHR 0x00 \<and> c \<noteq> CHR '']'' \<and> c \<noteq> CHR '','')"

text \<open>
  An element is a valid numeric literal for \<open>AtoF\<close> when it holds neither a separator nor
  the terminator, and \<open>AtoF\<close> answers its text with a positive status.
\<close>

definition validElement :: "(string \<Rightarrow> int \<times> 'f) \<Rightarrow> string \<Rightarrow> bool" where
  "validElement AtoF e = (list_all elemChar e \<and> strip e \<noteq> [] \<and> 0 < fst (AtoF (strip e)))"

text \<open>The locals after the stores \<^verbatim>\<open>elBuf[bufidx++] = c\<close> for the characters of a text.\<close>

fun pushChars :: "'f parse_locals \<Rightarrow> string \<Rightarrow> 'f parse_locals" where
  "pushChars s [] = s"
| "pushChars s (c # cs) =
     pushChars (s\<lparr>elBuf := (elBuf s)(bufidx s := c), bufidx := bufidx s + 1\<rparr>) cs"

text \<open>The element buffer after the stores \<^verbatim>\<open>elems[i++] = x\<close> for the values of a list.\<close>

fun storeAll :: "(nat \<Rightarrow> 'f) \<Rightarrow> nat \<Rightarrow> 'f list \<Rightarrow> (nat \<Rightarrow> 'f)" where
  "storeAll f i [] = f"
| "storeAll f i (x # xs) = storeAll (f(i := x)) (i + 1) xs"

text \<open>\<^verbatim>\<open>vectorInit\<close> (lines 52 to 57).\<close>

definition vectorInit :: "nat \<Rightarrow> nat \<Rightarrow> (nat \<Rightarrow> 'f) \<Rightarrow> 'f Vector" where
  "vectorInit t d buf = \<lparr>type = t, flags = 0, dims = d, data = buf\<rparr>"

text \<open>The first character of a text that is not whitespace, if there is one.\<close>

definition firstNonSpace :: "string \<Rightarrow> char option" where
  "firstNonSpace z = List.find (\<lambda>c. \<not> sqlite3Isspace c) z"

subsection \<open>Dispatch on the kind of the input: \<^verbatim>\<open>vectorParseBlob\<close> and \<^verbatim>\<open>vectorParse\<close>\<close>

text \<open>
  \<^verbatim>\<open>vectorF3ParseBlob\<close> (declared in \<^verbatim>\<open>vectorInt.h\<close>) is not under src/: it is the
  parameter \<open>F3ParseBlob\<close>, from the value and the vector to the value returned and the
  vector after the call. A vector type other than \<open>VECTOR_TYPE_FLOAT32\<close> runs into
  \<^verbatim>\<open>assert(0)\<close>; past the assertion the code returns \<open>-1\<close>.
\<close>

definition vectorParseBlob ::
  "(sqlite3_value \<Rightarrow> 'f Vector \<Rightarrow> int \<times> 'f Vector) \<Rightarrow> sqlite3_value \<Rightarrow> 'f Vector \<Rightarrow> 'f parse_out" where
  "vectorParseBlob F3ParseBlob arg v =
     (if type v = VECTOR_TYPE_FLOAT32 then
        (case F3ParseBlob arg v of (r, v') \<Rightarrow>
           \<lparr>rc = r, err = (if r < 0 then Some InvalidBlob else None), vec = v', elBufOverrun = False\<rparr>)
      else \<lparr>rc = -1, err = Some UnsupportedType, vec = v, elBufOverrun = False\<rparr>)"

definition vectorParse ::
  "(string \<Rightarrow> int \<times> 'f) \<Rightarrow> (sqlite3_value \<Rightarrow> 'f Vector \<Rightarrow> int \<times> 'f Vector) \<Rightarrow>
   sqlite3_value \<Rightarrow> 'f Vector \<Rightarrow> 'f parse_out" where
  "vectorParse AtoF F3ParseBlob arg v =
     (case arg of
        SQLITE_NULL \<Rightarrow> \<lparr>rc = -1, err = Some InvalidInputKind, vec = v, elBufOverrun = False\<rparr>
      | SQLITE_BLOB b \<Rightarrow> vectorParseBlob F3ParseBlob arg v
      | SQLITE_TEXT t \<Rightarrow> vectorParseText AtoF arg v
      | _ \<Rightarrow> \<lparr>rc = -1, err = Some InvalidInputKind, vec = v, elBufOverrun = False\<rparr>)"

subsection \<open>The distance function of the callable surface\<close>

text \<open>
  \<^verbatim>\<open>vectorDistanceCos\<close> (lines 119 to 129). \<^verbatim>\<open>vectorF32DistanceCos\<close> is not under src/:
  it is the parameter \<open>F32DistanceCos\<close>. The result type \<^typ>\<open>'r\<close> stands for the
  floating-point result; the code returns \<open>-1\<close> past \<^verbatim>\<open>assert(0)\<close> for another type.
\<close>

definition vectorDistanceCos ::
  "('f Vector \<Rightarrow> 'f Vector \<Rightarrow> 'r) \<Rightarrow> 'f Vector \<Rightarrow> 'f Vector \<Rightarrow> 'r::{one,uminus}" where
  "vectorDistanceCos F32DistanceCos v1 v2 =
     (if type v1 = VECTOR_TYPE_FLOAT32 then F32DistanceCos v1 v2 else - 1)"

text \<open>
  \<^verbatim>\<open>vectorContextAlloc\<close> (lines 76 to 86): \<^verbatim>\<open>contextMalloc\<close> answers with the block
  (\<open>Some\<close> of the element cells as they are found) or with the null pointer (\<open>None\<close>).
\<close>

definition vectorContextAlloc :: "(nat \<Rightarrow> 'f) option \<Rightarrow> nat \<Rightarrow> 'f Vector option" where
  "vectorContextAlloc p t =
     (case p of None \<Rightarrow> None | Some buf \<Rightarrow> Some (vectorInit t MAX_VECTOR_SZ buf))"

text \<open>
  What \<^verbatim>\<open>vectorDistanceCosFunc\<close> leaves in the context: nothing, an out-of-memory
  error, an error with the message of a failed decoding, the error
  "vectors must have the same length", or a double.
\<close>

datatype 'r func_result =
    NoResult
  | ResultErrorNomem
  | ResultErrorDecode "parse_error option"
  | ResultErrorDimensionMismatch
  | ResultDouble 'r

text \<open>
  The outcome of a call: the result in the context and the calls of \<^verbatim>\<open>vectorDistanceCos\<close>
  that were made, each with its two arguments.
\<close>

record ('f, 'r) func_out =
  result :: "'r func_result"
  distanceCalls :: "('f Vector \<times> 'f Vector) list"

text \<open>
  \<^verbatim>\<open>vectorDistanceCosFunc\<close> (lines 508 to 545). \<open>m1\<close> and \<open>m2\<close> are the answers of the two
  calls of \<^verbatim>\<open>contextMalloc\<close>; \<open>argv\<close> is the argument list, \<open>argc\<close> its length.
\<close>

definition vectorDistanceCosFunc ::
  "(string \<Rightarrow> int \<times> 'f) \<Rightarrow> (sqlite3_value \<Rightarrow> 'f Vector \<Rightarrow> int \<times> 'f Vector) \<Rightarrow>
   ('f Vector \<Rightarrow> 'f Vector \<Rightarrow> 'r) \<Rightarrow> (nat \<Rightarrow> 'f) option \<Rightarrow> (nat \<Rightarrow> 'f) option \<Rightarrow>
   sqlite3_value list \<Rightarrow> ('f, 'r::{one,uminus}) func_out" where
  "vectorDistanceCosFunc AtoF F3ParseBlob F32DistanceCos m1 m2 argv =
     (if length argv < 2 then \<lparr>result = NoResult, distanceCalls = []\<rparr>
      else
        (case vectorContextAlloc m1 VECTOR_TYPE_FLOAT32 of
           None \<Rightarrow> \<lparr>result = ResultErrorNomem, distanceCalls = []\<rparr>
         | Some pVec1 \<Rightarrow>
             (case vectorContextAlloc m2 VECTOR_TYPE_FLOAT32 of
                None \<Rightarrow> \<lparr>result = ResultErrorNomem, distanceCalls = []\<rparr>
              | Some pVec2 \<Rightarrow>
                  (let r1 = vectorParse AtoF F3ParseBlob (argv ! 0) pVec1 in
                   if rc r1 < 0 then \<lparr>result = ResultErrorDecode (err r1), distanceCalls = []\<rparr>
                   else
                     (let r2 = vectorParse AtoF F3ParseBlob (argv ! 1) pVec2 in
                      if rc r2 < 0 then \<lparr>result = ResultErrorDecode (err r2), distanceCalls = []\<rparr>
                      else if dims (vec r1) \<noteq> dims (vec r2) then
                        \<lparr>result = ResultErrorDimensionMismatch, distanceCalls = []\<rparr>
                      else
                        \<lparr>result = ResultDouble (vectorDistanceCos F32DistanceCos (vec r1) (vec r2)),
                         distanceCalls = [(vec r1, vec r2)]\<rparr>)))))"

subsection \<open>Index integration\<close>

definition SQLITE_OK :: int where
  "SQLITE_OK = 0"

definition SQLITE_NOMEM :: int where
  "SQLITE_NOMEM = 7"

text \<open>
  Modelled from the spec: the case-folding table \<^verbatim>\<open>sqlite3UpperToLower\<close> (\<^verbatim>\<open>global.c\<close>) is
  not under src/. The spec speaks of a recognized token and of a matching type string; the
  comparisons of the host engine ignore the case of the ASCII letters: the table maps \<open>A\<close>
  to \<open>Z\<close> to \<open>a\<close> to \<open>z\<close> and every other character to itself.
\<close>

definition sqlite3UpperToLower :: "char \<Rightarrow> char" where
  "sqlite3UpperToLower c =
     (case map_of (zip ''ABCDEFGHIJKLMNOPQRSTUVWXYZ'' ''abcdefghijklmnopqrstuvwxyz'') c of
        None \<Rightarrow> c
      | Some l \<Rightarrow> l)"

text \<open>The C string that a list of characters holds: the characters before the first NUL.\<close>

definition cstr :: "string \<Rightarrow> string" where
  "cstr z = takeWhile (\<lambda>c. c \<noteq> CHR 0x00) z"

text \<open>
  Modelled from the spec: \<^verbatim>\<open>sqlite3_stricmp\<close> (\<^verbatim>\<open>util.c\<close>) is not under src/. As the host
  engine documents it, it compares two strings ignoring the case of the ASCII letters and
  returns 0 when they agree. The code only tests the result against 0; the model returns 1
  otherwise.
\<close>

definition sqlite3_stricmp :: "string \<Rightarrow> string \<Rightarrow> int" where
  "sqlite3_stricmp a b =
     (if map sqlite3UpperToLower (cstr a) = map sqlite3UpperToLower (cstr b) then 0 else 1)"

text \<open>
  Modelled from the spec: \<^verbatim>\<open>sqlite3_strnicmp\<close> (\<^verbatim>\<open>util.c\<close>) is not under src/. It is the
  same comparison over the first \<open>N\<close> bytes of the two strings at most.
\<close>

definition sqlite3_strnicmp :: "string \<Rightarrow> string \<Rightarrow> nat \<Rightarrow> int" where
  "sqlite3_strnicmp a b N =
     (if map sqlite3UpperToLower (take N (cstr a)) = map sqlite3UpperToLower (take N (cstr b))
      then 0 else 1)"

text \<open>
  \<^verbatim>\<open>parseVectorDims\<close> (lines 333 to 351). The loop over the characters after the prefix;
  the local \<^verbatim>\<open>dims\<close> (here \<open>nDims\<close>) is a C \<^verbatim>\<open>int\<close>, modelled as a 32-bit word read as a
  signed number, so that an overflow of \<^verbatim>\<open>dims*10 + (*z - '0')\<close> wraps around.
\<close>

fun parseDimsLoop :: "string \<Rightarrow> 32 word \<Rightarrow> int" where
  "parseDimsLoop [] nDims = -1"
| "parseDimsLoop (c # z) nDims =
     (if c = CHR 0x00 then -1
      else if c = CHR '')'' then sint nDims
      else if \<not> sqlite3Isdigit c then -1
      else parseDimsLoop z (nDims * 10 + (of_char c - of_char (CHR ''0''))))"

definition parseVectorDims :: "string \<Rightarrow> int" where
  "parseVectorDims zType =
     (if sqlite3_strnicmp zType ''FLOAT32('' 8 = 0 then parseDimsLoop (drop 8 zType) 0
      else -1)"

text \<open>
  The parts of \<^verbatim>\<open>Index\<close>, \<^verbatim>\<open>Table\<close> and \<^verbatim>\<open>Column\<close> (\<^verbatim>\<open>sqliteInt.h\<close>) that
  \<^verbatim>\<open>vectorIndexCreate\<close> reads: the name of the index, the number of its key columns, the
  numbers of the indexed columns, and the columns of the table, each with its declared type
  if it has one.
\<close>

record Column =
  zCnType :: "string option"

record Table =
  aCol :: "Column list"

record Index =
  zName :: string
  nKeyCol :: nat
  aiColumn :: "nat list"
  pTable :: Table

text \<open>
  Modelled from the spec: \<^verbatim>\<open>sqlite3ColumnType\<close> (\<^verbatim>\<open>build.c\<close>) is not under src/. It gives
  the declared type string of the column, and the default handed to it when the column
  has none.
\<close>

definition sqlite3ColumnType :: "Column \<Rightarrow> string \<Rightarrow> string" where
  "sqlite3ColumnType pCol zDflt = (case zCnType pCol of None \<Rightarrow> zDflt | Some t \<Rightarrow> t)"

text \<open>
  The messages of \<^verbatim>\<open>sqlite3ErrorMsg\<close> in \<^verbatim>\<open>vectorIndexCreate\<close>, under the spec's names:
  "Unknown indexing method: %s", "Only single column vector indexes are supported",
  "Invalid vector type".
\<close>

datatype index_error =
    UnknownIndexMethod string
  | UnsupportedIndexShape
  | InvalidVectorType

text \<open>
  What a call of \<^verbatim>\<open>vectorIndexCreate\<close> leaves behind: the value returned, the message set
  in the parse context, the statements handed to \<^verbatim>\<open>sqlite3_exec\<close> (the shadow table is
  provisioned by such a statement), and the calls of \<^verbatim>\<open>diskAnnCreateIndex\<close> with their
  arguments (name, dimensions, distance operator).
\<close>

record create_out =
  status :: int
  errorMsg :: "index_error option"
  execLog :: "string list"
  annCreateLog :: "(string \<times> int \<times> nat) list"

text \<open>
  The loop of lines 365 to 372 over the identifiers of \<^verbatim>\<open>pUsing\<close>: \<open>Inl\<close> of the name in
  the message when the loop returns \<open>-1\<close>, \<open>Inr\<close> of \<^verbatim>\<open>nDistanceOps\<close> when the loop is left.
\<close>

fun usingLoop :: "string list \<Rightarrow> nat \<Rightarrow> string + nat" where
  "usingLoop [] nDistanceOps = Inr nDistanceOps"
| "usingLoop (zNm # a) nDistanceOps =
     (if sqlite3_stricmp zNm ''diskann_cosine_ops'' = 0 then Inr VECTOR_DISTANCE_COS
      else Inl zNm)"

text \<open>
  \<^verbatim>\<open>vectorIndexCreate\<close> (lines 353 to 391). \<^verbatim>\<open>sqlite3_exec\<close> and \<^verbatim>\<open>diskAnnCreateIndex\<close>
  are external: the parameters \<open>exec\<close> and \<open>diskAnnCreateIndex\<close> give the status each
  returns. A column number outside the table is not a case the code handles; the model
  answers it like a column without a declared type.
\<close>

definition vectorIndexCreate ::
  "(string \<Rightarrow> int) \<Rightarrow> (string \<Rightarrow> int \<Rightarrow> nat \<Rightarrow> int) \<Rightarrow> Index \<Rightarrow> string list \<Rightarrow> create_out" where
  "vectorIndexCreate exec diskAnnCreateIndex pIdx pUsing =
     (case usingLoop pUsing 0 of
        Inl zNm \<Rightarrow>
          \<lparr>status = -1, errorMsg = Some (UnknownIndexMethod zNm), execLog = [], annCreateLog = []\<rparr>
      | Inr nDistanceOps \<Rightarrow>
          (let zSql = ''CREATE TABLE IF NOT EXISTS '' @ zName pIdx @ ''_shadow (data BLOB)'';
               r = exec zSql
           in if r \<noteq> SQLITE_OK then
                \<lparr>status = r, errorMsg = None, execLog = [zSql], annCreateLog = []\<rparr>
              else if nKeyCol pIdx \<noteq> 1 then
                \<lparr>status = -1, errorMsg = Some UnsupportedIndexShape, execLog = [zSql],
                 annCreateLog = []\<rparr>
              else
                (let pCol = (case aiColumn pIdx of
                               [] \<Rightarrow> \<lparr>zCnType = None\<rparr>
                             | i # _ \<Rightarrow> if i < length (aCol (pTable pIdx))
                                        then aCol (pTable pIdx) ! i else \<lparr>zCnType = None\<rparr>);
                     nDims = parseVectorDims (sqlite3ColumnType pCol [])
                 in if nDims < 0 then
                      \<lparr>status = -1, errorMsg = Some InvalidVectorType, execLog = [zSql],
                       annCreateLog = []\<rparr>
                    else
                      \<lparr>status = diskAnnCreateIndex (zName pIdx) nDims nDistanceOps,
                       errorMsg = None, execLog = [zSql],
                       annCreateLog = [(zName pIdx, nDims, nDistanceOps)]\<rparr>)))"

text \<open>
  \<^verbatim>\<open>vectorInitStatic\<close> (lines 107 to 117). \<^verbatim>\<open>vectorF32InitFromBlob\<close> is not under src/:
  it is the parameter \<open>F32InitFromBlob\<close>, from the blob to the vector it sets up.
\<close>

definition vectorInitStatic :: "(8 word list \<Rightarrow> 'f Vector) \<Rightarrow> nat \<Rightarrow> 8 word list \<Rightarrow> 'f Vector" where
  "vectorInitStatic F32InitFromBlob t blob =
     (F32InitFromBlob blob)\<lparr>type := t, flags := VECTOR_FLAGS_STATIC\<rparr>"

text \<open>
  \<^verbatim>\<open>struct VectorIdxCursor\<close>: the handle of the open index (the database connection is
  left out).
\<close>

record 'h VectorIdxCursor =
  index :: 'h

text \<open>
  What a call of \<^verbatim>\<open>vectorIndexInsert\<close> leaves behind: the value returned, and the calls of
  \<^verbatim>\<open>diskAnnInsert\<close> with their arguments and the status the engine returned.
\<close>

record ('h, 'f) insert_out =
  insertStatus :: int
  annInsertLog :: "('h \<times> 'f Vector \<times> int \<times> int) list"

text \<open>
  \<^verbatim>\<open>vectorIndexInsert\<close> (lines 393 to 411). \<open>aMem\<close> holds the fields of the payload. The
  assertions ask for two fields, a blob and an integer; for any other payload the model
  gives \<open>None\<close>. \<^verbatim>\<open>diskAnnInsert\<close> is external: the parameter gives the status it returns.
\<close>

definition vectorIndexInsert ::
  "(8 word list \<Rightarrow> 'f Vector) \<Rightarrow> ('h \<Rightarrow> 'f Vector \<Rightarrow> int \<Rightarrow> int) \<Rightarrow>
   'h VectorIdxCursor \<Rightarrow> sqlite3_value list \<Rightarrow> ('h, 'f) insert_out option" where
  "vectorIndexInsert F32InitFromBlob diskAnnInsert pCur aMem =
     (case aMem of
        [SQLITE_BLOB blob, SQLITE_INTEGER rowid] \<Rightarrow>
          (let v = vectorInitStatic F32InitFromBlob VECTOR_TYPE_FLOAT32 blob;
               engineStatus = diskAnnInsert (index pCur) v rowid
           in Some \<lparr>insertStatus = 0,
                    annInsertLog = [(index pCur, v, rowid, engineStatus)]\<rparr>)
      | _ \<Rightarrow> None)"

text \<open>
  \<^verbatim>\<open>vectorIndexCursorInit\<close> (lines 413 to 434). \<open>mallocOk\<close> tells whether
  \<^verbatim>\<open>sqlite3DbMallocZero\<close> gave a block; \<^verbatim>\<open>diskAnnOpenIndex\<close> is external: the parameter
  gives its status and the handle it stores. The result is the value returned and the
  cursor stored in \<^verbatim>\<open>pCsr->uc.pVecIdx\<close>, if one was stored.
\<close>

definition vectorIndexCursorInit ::
  "bool \<Rightarrow> (string \<Rightarrow> int \<times> 'h) \<Rightarrow> string \<Rightarrow> int \<times> 'h VectorIdxCursor option" where
  "vectorIndexCursorInit mallocOk diskAnnOpenIndex zIndexName =
     (if \<not> mallocOk then (SQLITE_NOMEM, None)
      else
        (case diskAnnOpenIndex zIndexName of (r, h) \<Rightarrow>
           if r \<noteq> SQLITE_OK then (r, None) else (SQLITE_OK, Some \<lparr>index = h\<rparr>)))"

subsection \<open>Formatting an element: \<^verbatim>\<open>isInteger\<close> and \<^verbatim>\<open>formatF32\<close>\<close>

text \<open>
  Lines 245 to 256. Floating-point arithmetic and \<^verbatim>\<open>snprintf\<close> are not modelled; they are
  parameters: \<open>toU64\<close> is the conversion \<^verbatim>\<open>(u64)num\<close>, \<open>ofU64\<close> the conversion back that the
  comparison makes, \<open>feq\<close> the comparison \<^verbatim>\<open>==\<close> of two floats, \<open>fmtLld\<close> the text that
  \<^verbatim>\<open>"%lld"\<close> prints and \<open>fmtE\<close> the text that \<^verbatim>\<open>"%.6e"\<close> prints. \<^verbatim>\<open>snprintf(tmp, 32, ..)\<close>
  stores at most 31 characters of the text in the local array \<^verbatim>\<open>tmp\<close> and returns the
  length of the whole text. The outcome holds the value returned, the local \<^verbatim>\<open>tmp\<close> when
  the function returns, and the caller's array \<^verbatim>\<open>str\<close> after the call.
\<close>

definition isInteger :: "('f \<Rightarrow> 64 word) \<Rightarrow> (64 word \<Rightarrow> 'f) \<Rightarrow> ('f \<Rightarrow> 'f \<Rightarrow> bool) \<Rightarrow> 'f \<Rightarrow> bool" where
  "isInteger toU64 ofU64 feq num = feq num (ofU64 (toU64 num))"

record format_out =
  returned :: nat
  tmpLocal :: string
  strAfter :: string

definition formatF32 ::
  "('f \<Rightarrow> 64 word) \<Rightarrow> (64 word \<Rightarrow> 'f) \<Rightarrow> ('f \<Rightarrow> 'f \<Rightarrow> bool) \<Rightarrow> (64 word \<Rightarrow> string) \<Rightarrow>
   ('f \<Rightarrow> string) \<Rightarrow> 'f \<Rightarrow> string \<Rightarrow> format_out" where
  "formatF32 toU64 ofU64 feq fmtLld fmtE num str =
     (if isInteger toU64 ofU64 feq num then
        \<lparr>returned = length (fmtLld (toU64 num)), tmpLocal = take 31 (fmtLld (toU64 num)),
         strAfter = str\<rparr>
      else
        \<lparr>returned = length (fmtE num), tmpLocal = take 31 (fmtE num), strAfter = str\<rparr>)"

subsection \<open>Binary encoding and decoding\<close>

text \<open>\<^verbatim>\<open>vectorDataSize\<close> (lines 39 to 47); past \<^verbatim>\<open>assert(0)\<close> the code returns 0.\<close>

definition vectorDataSize :: "nat \<Rightarrow> nat \<Rightarrow> nat" where
  "vectorDataSize t d = (if t = VECTOR_TYPE_FLOAT32 then d * 4 else 0)"

text \<open>
  \<^verbatim>\<open>vectorF32SerializeToBlob\<close> and \<^verbatim>\<open>vectorF32DeserializeFromBlob\<close> are declared in
  \<^verbatim>\<open>vectorInt.h\<close>; the file that defines them is not under src/. The next four definitions
  model them from the spec. An element is the 32 bits of its \<^verbatim>\<open>float\<close>, and a blob is a list
  of bytes.
\<close>

text \<open>
  Modelled from the spec: the bytes of one element in a blob; the encoding of an element
  belongs to \<^verbatim>\<open>vectorF32SerializeToBlob\<close>, which is not under src/. The spec: raw packed
  32-bit floats; its example (1.0 is \<open>00 00 80 3F\<close>) puts the least significant byte first.
\<close>

definition f32ToBytes :: "32 word \<Rightarrow> 8 word list" where
  "f32ToBytes w = [ucast w, ucast (drop_bit 8 w), ucast (drop_bit 16 w), ucast (drop_bit 24 w)]"

text \<open>
  Modelled from the spec: the element that four bytes of a blob denote; the decoding of an
  element belongs to \<^verbatim>\<open>vectorF32DeserializeFromBlob\<close>, which is not under src/. The bytes
  are read as they were written, the least significant one first.
\<close>

fun f32OfBytes :: "8 word list \<Rightarrow> 32 word" where
  "f32OfBytes [b0, b1, b2, b3] =
     or (ucast b0) (or (push_bit 8 (ucast b1)) (or (push_bit 16 (ucast b2)) (push_bit 24 (ucast b3))))"
| "f32OfBytes _ = 0"

text \<open>
  Modelled from the spec: \<^verbatim>\<open>vectorF32SerializeToBlob\<close> is not under src/. The spec: binary
  encoding writes \<open>dimensionCount \<times> elementSize\<close> raw bytes into a caller-provided buffer, and
  fails (returns a sentinel) if the destination buffer is smaller than required. The
  sentinel is taken as 0; otherwise the value returned is the number of bytes written. The
  result holds the value returned and the buffer after the call.
\<close>

definition vectorF32SerializeToBlob :: "32 word Vector \<Rightarrow> 8 word list \<Rightarrow> nat \<Rightarrow> nat \<times> 8 word list" where
  "vectorF32SerializeToBlob p blob blobSize =
     (if blobSize < vectorDataSize VECTOR_TYPE_FLOAT32 (dims p) then (0, blob)
      else (vectorDataSize VECTOR_TYPE_FLOAT32 (dims p),
            concat (map (\<lambda>i. f32ToBytes (data p i)) [0..<dims p]) @
            drop (vectorDataSize VECTOR_TYPE_FLOAT32 (dims p)) blob))"

text \<open>
  Modelled from the spec: \<^verbatim>\<open>vectorF32DeserializeFromBlob\<close> is not under src/. The spec:
  the length must be an exact multiple of the element size; the dimension count is length /
  elementSize; the bytes are read as a packed array of the element type, without header or
  length prefix; any other length fails. The failure is taken as the value 0 with the
  vector left as it was; otherwise the value returned is the number of bytes read. The
  result holds the value returned and the vector after the call.
\<close>

definition vectorF32DeserializeFromBlob :: "32 word Vector \<Rightarrow> 8 word list \<Rightarrow> nat \<Rightarrow> nat \<times> 32 word Vector" where
  "vectorF32DeserializeFromBlob p blob blobSize =
     (if blobSize mod 4 \<noteq> 0 then (0, p)
      else (blobSize,
            p\<lparr>dims := blobSize div 4,
              data := (\<lambda>i. if i < blobSize div 4 then f32OfBytes (take 4 (drop (4 * i) blob))
                            else data p i)\<rparr>))"

text \<open>
  \<^verbatim>\<open>vectorSerializeToBlob\<close> (lines 294 to 303) and \<^verbatim>\<open>vectorDeserializeFromBlob\<close> (lines 305
  to 314): the dispatch on the type; past \<^verbatim>\<open>assert(0)\<close> the code returns 0.
\<close>

definition vectorSerializeToBlob :: "32 word Vector \<Rightarrow> 8 word list \<Rightarrow> nat \<Rightarrow> nat \<times> 8 word list" where
  "vectorSerializeToBlob p blob blobSize =
     (if type p = VECTOR_TYPE_FLOAT32 then vectorF32SerializeToBlob p blob blobSize
      else (0, blob))"

definition vectorDeserializeFromBlob :: "32 word Vector \<Rightarrow> 8 word list \<Rightarrow> nat \<Rightarrow> nat \<times> 32 word Vector" where
  "vectorDeserializeFromBlob p blob blobSize =
     (if type p = VECTOR_TYPE_FLOAT32 then vectorF32DeserializeFromBlob p blob blobSize
      else (0, p))"

subsection \<open>A concrete vector for the examples\<close>

text \<open>
  The vector that \<^verbatim>\<open>vectorContextAlloc\<close> sets up over a block whose cells hold the empty
  text: type \<open>VECTOR_TYPE_FLOAT32\<close>, \<open>MAX_VECTOR_SZ\<close> dimensions. With \<open>specAtoF\<close> a cell
  holds the text of the element stored in it.
\<close>

definition sampleVector :: "string Vector" where
  "sampleVector = vectorInit VECTOR_TYPE_FLOAT32 MAX_VECTOR_SZ (\<lambda>_. [])"

subsection \<open>A concrete index for the examples\<close>

text \<open>
  An index named \<open>idx\<close> over the single column 0 of a table whose column 0 is declared
  with the given type.
\<close>

definition sampleIndex :: "string \<Rightarrow> Index" where
  "sampleIndex zType =
     \<lparr>zName = ''idx'', nKeyCol = 1, aiColumn = [0],
      pTable = \<lparr>aCol = [\<lparr>zCnType = Some zType\<rparr>]\<rparr>\<rparr>"

subsection \<open>Vocabulary for the statements about the declared type\<close>

text \<open>
  The shape of a declared type that \<^verbatim>\<open>parseVectorDims\<close> accepts, said with the list
  functions: the first 8 characters are \<open>FLOAT32(\<close> in any letter case, a \<open>)\<close> follows
  somewhere, and the characters up to the first \<open>)\<close> (the digits of the type) are decimal
  digits. \<open>decimalValue\<close> is the number that a string of decimal digits denotes.
\<close>

definition float32Digits :: "string \<Rightarrow> string" where
  "float32Digits z = takeWhile (\<lambda>c. c \<noteq> CHR '')'') (drop 8 z)"

definition float32Form :: "string \<Rightarrow> bool" where
  "float32Form z =
     (map sqlite3UpperToLower (take 8 z) = ''float32('' \<and> CHR '')'' \<in> set (drop 8 z) \<and>
      list_all sqlite3Isdigit (float32Digits z))"

definition decimalValue :: "string \<Rightarrow> nat" where
  "decimalValue ds = foldl (\<lambda>n c. 10 * n + (of_char c - 48)) 0 ds"

text \<open>
  The spec's words, for comparison with the code: the declared type string is
  \<open>FLOAT32(<N>)\<close> with \<open>N\<close> a parseable non-negative integer, that is \<open>FLOAT32(\<close>, one or more
  decimal digits, and \<open>)\<close> at the end of the string.
\<close>

definition specVectorType :: "string \<Rightarrow> bool" where
  "specVectorType z =
     (take 8 z = ''FLOAT32('' \<and> drop 8 z \<noteq> [] \<and> last (drop 8 z) = CHR '')'' \<and>
      butlast (drop 8 z) \<noteq> [] \<and> list_all sqlite3Isdigit (butlast (drop 8 z)))"

subsection \<open>A concrete vector of floats for the examples\<close>

text \<open>
  The vector (1.0, 2.0, 3.0) of the spec's example, each element by the 32 bits of its
  \<^verbatim>\<open>float\<close>.
\<close>

definition sampleF32 :: "32 word Vector" where
  "sampleF32 =
     \<lparr>type = VECTOR_TYPE_FLOAT32, flags = 0, dims = 3,
      data = (\<lambda>i. if i = 0 then 0x3F800000 else if i = 1 then 0x40000000 else 0x40400000)\<rparr>"

section \<open>Properties of text decoding\<close>

subsection \<open>The loop over the characters\<close>

lemma isspace_simps [simp]:
  "\<not> sqlite3Isspace (CHR 0x00)" "\<not> sqlite3Isspace (CHR '']'')" "\<not> sqlite3Isspace (CHR '','')"
  "\<not> sqlite3Isspace (CHR ''['')"
  by (simp_all add: sqlite3Isspace_def)

lemma pushChars_fields [simp]:
  "bufidx (pushChars s cs) = bufidx s + length cs"
  "vecidx (pushChars s cs) = vecidx s"
  "elems (pushChars s cs) = elems s"
  "overrun (pushChars s cs) = overrun s"
  by (induction cs arbitrary: s) simp_all

lemma elText_push1:
  "elText (s\<lparr>elBuf := (elBuf s)(bufidx s := c), bufidx := Suc (bufidx s)\<rparr>) = elText s @ [c]"
  by (simp add: elText_def)

lemma elText_pushChars: "elText (pushChars s cs) = elText s @ cs"
  by (induction cs arbitrary: s) (simp_all add: elText_push1)

lemma elText_empty: "bufidx s = 0 \<Longrightarrow> elText s = []"
  by (simp add: elText_def)

lemma parseElems_push:
  "list_all elemChar cs \<Longrightarrow> bufidx s + length (strip cs) \<le> MAX_FLOAT_CHAR_SZ \<Longrightarrow>
   parseElems AtoF (cs @ z) s = parseElems AtoF z (pushChars s (strip cs))"
proof (induction cs arbitrary: s)
  case Nil
  then show ?case by (simp add: strip_def)
next
  case (Cons c cs)
  show ?case
  proof (cases "sqlite3Isspace c")
    case True
    with Cons show ?thesis by (simp add: strip_def elemChar_def)
  next
    case False
    let ?s1 = "s\<lparr>elBuf := (elBuf s)(bufidx s := c), bufidx := bufidx s + 1\<rparr>"
    from Cons.prems False have b: "bufidx s < MAX_FLOAT_CHAR_SZ"
      and b1: "bufidx ?s1 + length (strip cs) \<le> MAX_FLOAT_CHAR_SZ"
      by (simp_all add: strip_def)
    from Cons.prems have cs: "list_all elemChar cs" and c: "elemChar c" by simp_all
    have "parseElems AtoF ((c # cs) @ z) s = parseElems AtoF (cs @ z) ?s1"
      using False c b by (simp add: elemChar_def Let_def)
    also have "\<dots> = parseElems AtoF z (pushChars ?s1 (strip cs))"
      by (rule Cons.IH [OF cs b1])
    finally show ?thesis using False by (simp add: strip_def)
  qed
qed

lemma parseElems_comma:
  "parseElems AtoF (CHR '','' # z) s =
     (case AtoF (elText s) of (r, el) \<Rightarrow>
        if r \<le> 0 then Return InvalidNumber s
        else if MAX_VECTOR_SZ \<le> vecidx s + 1
          then Return TooManyDimensions
                 (s\<lparr>bufidx := 0, elBuf := (\<lambda>_. CHR 0x00),
                    elems := (elems s)(vecidx s := el), vecidx := vecidx s + 1\<rparr>)
          else parseElems AtoF z
                 (s\<lparr>bufidx := 0, elBuf := (\<lambda>_. CHR 0x00),
                    elems := (elems s)(vecidx s := el), vecidx := vecidx s + 1\<rparr>))"
  by (simp add: Let_def split: prod.splits)

lemma parseBody_single:
  assumes ok: "validElement AtoF e" and len: "length (strip e) \<le> MAX_FLOAT_CHAR_SZ"
    and b0: "bufidx s = 0"
  shows "parseBody AtoF v (e @ CHR '']'' # rest) s =
     (if vecidx s + 1 < MAX_VECTOR_SZ
      then \<lparr>rc = int (vecidx s + 1), err = None,
            vec = v\<lparr>data := (elems s)(vecidx s := snd (AtoF (strip e))), dims := vecidx s + 1\<rparr>,
            elBufOverrun = overrun s\<rparr>
      else \<lparr>rc = -1, err = Some TooManyDimensions,
            vec = v\<lparr>data := (elems s)(vecidx s := snd (AtoF (strip e)))\<rparr>,
            elBufOverrun = overrun s\<rparr>)"
proof -
  from ok have ch: "list_all elemChar e" and ne: "strip e \<noteq> []" and pos: "0 < fst (AtoF (strip e))"
    by (simp_all add: validElement_def)
  have "parseElems AtoF (e @ CHR '']'' # rest) s
          = parseElems AtoF (CHR '']'' # rest) (pushChars s (strip e))"
    using ch len b0 by (simp add: parseElems_push)
  then have loop: "parseElems AtoF (e @ CHR '']'' # rest) s
          = LoopEnd (CHR '']'' # rest) (pushChars s (strip e))"
    by simp
  have etx: "elText (pushChars s (strip e)) = strip e"
    using b0 by (simp add: elText_pushChars elText_empty)
  obtain r el where a: "AtoF (strip e) = (r, el)" by (cases "AtoF (strip e)")
  with pos have r: "0 < r" by simp
  show ?thesis
    using ne r a b0
    by (simp add: parseBody_def loop parseTail_def etx parseFail_def Let_def)
qed

lemma parseBody_elements:
  assumes "\<forall>e\<in>set es. validElement AtoF e \<and> length (strip e) \<le> MAX_FLOAT_CHAR_SZ"
    and "es \<noteq> []" and "bufidx s = 0" and "vecidx s < MAX_VECTOR_SZ"
  shows "parseBody AtoF v (commaJoin es @ CHR '']'' # rest) s =
     (if vecidx s + length es < MAX_VECTOR_SZ
      then \<lparr>rc = int (vecidx s + length es), err = None,
            vec = v\<lparr>data := storeAll (elems s) (vecidx s) (map (\<lambda>e. snd (AtoF (strip e))) es),
                    dims := vecidx s + length es\<rparr>,
            elBufOverrun = overrun s\<rparr>
      else \<lparr>rc = -1, err = Some TooManyDimensions,
            vec = v\<lparr>data := storeAll (elems s) (vecidx s)
                      (map (\<lambda>e. snd (AtoF (strip e))) (take (MAX_VECTOR_SZ - vecidx s) es))\<rparr>,
            elBufOverrun = overrun s\<rparr>)"
  using assms
proof (induction es arbitrary: s rule: commaJoin.induct)
  case 1
  then show ?case by simp
next
  case (2 e)
  then have "MAX_VECTOR_SZ - vecidx s = Suc (MAX_VECTOR_SZ - vecidx s - 1)" by simp
  then have tk: "take (MAX_VECTOR_SZ - vecidx s) [e] = [e]" by (metis take_Suc_Cons take.simps(1))
  from 2 show ?case by (simp add: parseBody_single tk del: take_Suc_Cons)
next
  case (3 e e' es)
  let ?es = "e' # es"
  from "3.prems" have ok: "validElement AtoF e" and len: "length (strip e) \<le> MAX_FLOAT_CHAR_SZ"
    and rest: "\<forall>x\<in>set ?es. validElement AtoF x \<and> length (strip x) \<le> MAX_FLOAT_CHAR_SZ"
    and b0: "bufidx s = 0" and v0: "vecidx s < MAX_VECTOR_SZ"
    by simp_all
  from ok have ch: "list_all elemChar e" and ne: "strip e \<noteq> []" and pos: "0 < fst (AtoF (strip e))"
    by (simp_all add: validElement_def)
  obtain r el where a: "AtoF (strip e) = (r, el)" by (cases "AtoF (strip e)")
  with pos have r: "0 < r" by simp
  let ?s1 = "(pushChars s (strip e))\<lparr>bufidx := 0, elBuf := (\<lambda>_. CHR 0x00),
                    elems := (elems s)(vecidx s := el), vecidx := vecidx s + 1\<rparr>"
  have etx: "elText (pushChars s (strip e)) = strip e"
    using b0 by (simp add: elText_pushChars elText_empty)
  have step: "parseElems AtoF (commaJoin (e # ?es) @ CHR '']'' # rest) s =
        (if MAX_VECTOR_SZ \<le> vecidx s + 1 then Return TooManyDimensions ?s1
         else parseElems AtoF (commaJoin ?es @ CHR '']'' # rest) ?s1)"
  proof -
    have "parseElems AtoF (commaJoin (e # ?es) @ CHR '']'' # rest) s
        = parseElems AtoF (CHR '','' # commaJoin ?es @ CHR '']'' # rest) (pushChars s (strip e))"
      using ch len b0 parseElems_push [of e s AtoF "CHR '','' # commaJoin ?es @ CHR '']'' # rest"]
      by simp
    also have "\<dots> = (if MAX_VECTOR_SZ \<le> vecidx s + 1 then Return TooManyDimensions ?s1
         else parseElems AtoF (commaJoin ?es @ CHR '']'' # rest) ?s1)"
      using r a by (simp only: parseElems_comma etx) simp
    finally show ?thesis .
  qed
  show ?case
  proof (cases "MAX_VECTOR_SZ \<le> vecidx s + 1")
    case True
    with v0 have "MAX_VECTOR_SZ - vecidx s = Suc 0" by simp
    then have tk: "take (MAX_VECTOR_SZ - vecidx s) (e # ?es) = [e]" by simp
    from True have big: "\<not> vecidx s + length (e # ?es) < MAX_VECTOR_SZ" by simp
    show ?thesis
      unfolding parseBody_def step using True big a
      by (simp add: parseFail_def tk del: take_Suc_Cons)
  next
    case False
    then have v1: "vecidx ?s1 < MAX_VECTOR_SZ" by simp
    have b1: "bufidx ?s1 = 0" by simp
    have ne': "?es \<noteq> []" by simp
    note IH = "3.IH" [OF rest ne' b1 v1]
    from False have "MAX_VECTOR_SZ - vecidx s = Suc (MAX_VECTOR_SZ - vecidx ?s1)" by simp
    then have tk: "take (MAX_VECTOR_SZ - vecidx s) (e # ?es) = e # take (MAX_VECTOR_SZ - vecidx ?s1) ?es"
      by simp
    have "parseBody AtoF v (commaJoin (e # ?es) @ CHR '']'' # rest) s
        = parseBody AtoF v (commaJoin ?es @ CHR '']'' # rest) ?s1"
      unfolding parseBody_def step using False by simp
    then show ?thesis
      unfolding IH tk using a by (simp del: take_Suc_Cons)
  qed
qed

lemma storeAll_below: "i < k \<Longrightarrow> storeAll f k xs i = f i"
  by (induction xs arbitrary: f k) simp_all

lemma storeAll_apply:
  "k \<le> i \<Longrightarrow> i < k + length xs \<Longrightarrow> storeAll f k xs i = xs ! (i - k)"
proof (induction xs arbitrary: f k)
  case Nil
  then show ?case by simp
next
  case (Cons x xs)
  show ?case
  proof (cases "i = k")
    case True
    then show ?thesis by (simp add: storeAll_below)
  next
    case False
    with Cons.prems have "Suc k \<le> i" "i < Suc k + length xs" by simp_all
    then have "storeAll (f(k := x)) (Suc k) xs i = xs ! (i - Suc k)" by (rule Cons.IH)
    moreover from False Cons.prems have "i - k = Suc (i - Suc k)" by simp
    ultimately show ?thesis by simp
  qed
qed

lemma parseElems_append:
  "parseElems AtoF (a @ b) s =
     (case parseElems AtoF a s of
        Return e s' \<Rightarrow> Return e s'
      | LoopEnd z' s' \<Rightarrow> (case z' of [] \<Rightarrow> parseElems AtoF b s' | c # r \<Rightarrow> LoopEnd (z' @ b) s'))"
proof (induction a arbitrary: s)
  case Nil
  then show ?case by simp
next
  case (Cons c a)
  show ?case
    by (simp add: Cons.IH Let_def split: prod.splits)
qed

lemma parseTail_head:
  "parseTail AtoF v (c # z1) s = parseTail AtoF v (c # z2) s"
  by (simp add: parseTail_def)

lemma parseBody_ignores_rest:
  "parseBody AtoF v (body @ CHR '']'' # rest) s = parseBody AtoF v (body @ '']'') s"
proof (cases "parseElems AtoF body s")
  case (Return e s')
  then show ?thesis by (simp add: parseBody_def parseElems_append)
next
  case (LoopEnd z' s')
  show ?thesis
  proof (cases z')
    case Nil
    with LoopEnd show ?thesis
      by (simp add: parseBody_def parseElems_append parseTail_head [of _ _ _ rest _ "[]"])
  next
    case (Cons c r)
    with LoopEnd show ?thesis
      by (simp add: parseBody_def parseElems_append parseTail_head [of _ _ _ "r @ CHR '']'' # rest" _ "r @ '']''"])
  qed
qed

lemma parseElems_no_bracket:
  "CHR '']'' \<notin> set body \<Longrightarrow> parseElems AtoF body s = LoopEnd z' s' \<Longrightarrow>
     z' = [] \<or> (\<exists>r. z' = CHR 0x00 # r)"
proof (induction body arbitrary: s)
  case Nil
  then show ?case by simp
next
  case (Cons c body)
  from Cons.prems show ?case
    by (auto simp: Let_def split: if_splits prod.splits dest: Cons.IH [rotated])
qed

lemma parseTail_unterminated:
  "z = [] \<or> (\<exists>r. z = CHR 0x00 # r) \<Longrightarrow>
   rc (parseTail AtoF v z s) = -1 \<and>
   err (parseTail AtoF v z s) =
     (case err (parseTail AtoF v '']'' s) of None \<Rightarrow> Some UnterminatedLiteral | Some e \<Rightarrow> Some e)"
  by (auto simp: parseTail_def parseFail_def Let_def split: prod.splits)

lemma parseBody_unterminated:
  assumes "CHR '']'' \<notin> set body"
  shows "rc (parseBody AtoF v body s) = -1 \<and>
     err (parseBody AtoF v body s) =
       (case err (parseBody AtoF v (body @ '']'') s) of
          None \<Rightarrow> Some UnterminatedLiteral | Some e \<Rightarrow> Some e)"
proof (cases "parseElems AtoF body s")
  case (Return e s')
  then show ?thesis by (simp add: parseBody_def parseElems_append parseFail_def)
next
  case (LoopEnd z' s')
  with assms have z': "z' = [] \<or> (\<exists>r. z' = CHR 0x00 # r)" by (rule parseElems_no_bracket)
  then show ?thesis
  proof
    assume "z' = []"
    with LoopEnd parseTail_unterminated [of z' AtoF v s'] show ?thesis
      by (simp add: parseBody_def parseElems_append)
  next
    assume "\<exists>r. z' = CHR 0x00 # r"
    then obtain r where r: "z' = CHR 0x00 # r" ..
    with LoopEnd parseTail_unterminated [of z' AtoF v s'] show ?thesis
      by (auto simp add: parseBody_def parseElems_append parseTail_def parseFail_def Let_def split: prod.splits)
  qed
qed

lemma parseElems_overrun_inv:
  "bufidx s \<le> MAX_FLOAT_CHAR_SZ \<Longrightarrow> \<not> overrun s \<Longrightarrow>
   (case parseElems AtoF z s of
      Return e s' \<Rightarrow> (e = ElementTooLong) = overrun s'
    | LoopEnd z' s' \<Rightarrow> \<not> overrun s' \<and> bufidx s' \<le> MAX_FLOAT_CHAR_SZ)"
proof (induction z arbitrary: s)
  case Nil
  then show ?case by simp
next
  case (Cons c z)
  show ?case
  proof (cases "c = CHR 0x00 \<or> c = CHR '']''")
    case True
    with Cons.prems show ?thesis by auto
  next
    case stop: False
    show ?thesis
    proof (cases "sqlite3Isspace c")
      case True
      with stop Cons show ?thesis by simp
    next
      case nsp: False
      show ?thesis
      proof (cases "c = CHR '',''")
        case True
        obtain r el where a: "AtoF (elText s) = (r, el)" by (cases "AtoF (elText s)")
        let ?s1 = "s\<lparr>bufidx := 0, elBuf := (\<lambda>_. CHR 0x00),
                         elems := (elems s)(vecidx s := el), vecidx := vecidx s + 1\<rparr>"
        have "bufidx ?s1 \<le> MAX_FLOAT_CHAR_SZ" "\<not> overrun ?s1" using Cons.prems by simp_all
        then have IH: "(case parseElems AtoF z ?s1 of
            Return e s' \<Rightarrow> (e = ElementTooLong) = overrun s'
          | LoopEnd z' s' \<Rightarrow> \<not> overrun s' \<and> bufidx s' \<le> MAX_FLOAT_CHAR_SZ)"
          by (rule Cons.IH)
        show ?thesis using True a IH Cons.prems by (simp add: Let_def)
      next
        case False
        let ?s1 = "s\<lparr>elBuf := (elBuf s)(bufidx s := c),
                    overrun := overrun s \<or> MAX_FLOAT_CHAR_SZ \<le> bufidx s,
                    bufidx := bufidx s + 1\<rparr>"
        show ?thesis
        proof (cases "bufidx s = MAX_FLOAT_CHAR_SZ")
          case True
          then show ?thesis using stop nsp False by (simp add: Let_def)
        next
          case lt: False
          with Cons.prems have "bufidx ?s1 \<le> MAX_FLOAT_CHAR_SZ" "\<not> overrun ?s1" by simp_all
          then have IH: "(case parseElems AtoF z ?s1 of
              Return e s' \<Rightarrow> (e = ElementTooLong) = overrun s'
            | LoopEnd z' s' \<Rightarrow> \<not> overrun s' \<and> bufidx s' \<le> MAX_FLOAT_CHAR_SZ)"
            by (rule Cons.IH)
          from lt Cons.prems have "\<not> MAX_FLOAT_CHAR_SZ < bufidx s + 1" by simp
          then show ?thesis using stop nsp False IH by (simp add: Let_def)
        qed
      qed
    qed
  qed
qed

lemma parseBody_overrun:
  assumes "bufidx s \<le> MAX_FLOAT_CHAR_SZ" "\<not> overrun s"
  shows "(err (parseBody AtoF v z s) = Some ElementTooLong) = elBufOverrun (parseBody AtoF v z s)"
proof (cases "parseElems AtoF z s")
  case (Return e s')
  with parseElems_overrun_inv [OF assms, of AtoF z] show ?thesis
    by (simp add: parseBody_def parseFail_def)
next
  case (LoopEnd z' s')
  with parseElems_overrun_inv [OF assms, of AtoF z] have "\<not> overrun s'" by simp
  then show ?thesis using LoopEnd
    by (simp add: parseBody_def parseTail_def parseFail_def Let_def split: prod.splits)
qed

lemma vectorParseText_overrun:
  "(err (vectorParseText AtoF arg v) = Some ElementTooLong) = elBufOverrun (vectorParseText AtoF arg v)"
  by (simp add: vectorParseText_def parseBody_overrun
      split: sqlite3_value.splits option.splits list.splits)

lemma parseElems_too_long:
  "list_all elemChar cs \<Longrightarrow> bufidx s \<le> MAX_FLOAT_CHAR_SZ \<Longrightarrow>
   MAX_FLOAT_CHAR_SZ < bufidx s + length (strip cs) \<Longrightarrow>
   \<exists>s'. parseElems AtoF (cs @ z) s = Return ElementTooLong s' \<and> overrun s' \<and> elems s' = elems s"
proof (induction cs arbitrary: s)
  case Nil
  then show ?case by (simp add: strip_def)
next
  case (Cons c cs)
  show ?case
  proof (cases "sqlite3Isspace c")
    case True
    with Cons.prems have "list_all elemChar cs" "MAX_FLOAT_CHAR_SZ < bufidx s + length (strip cs)"
      by (simp_all add: strip_def)
    from Cons.IH [OF this(1) Cons.prems(2) this(2)] True Cons.prems(1) show ?thesis
      by (simp add: elemChar_def)
  next
    case False
    let ?s1 = "s\<lparr>elBuf := (elBuf s)(bufidx s := c),
                overrun := overrun s \<or> MAX_FLOAT_CHAR_SZ \<le> bufidx s,
                bufidx := bufidx s + 1\<rparr>"
    from Cons.prems have c: "elemChar c" and cs: "list_all elemChar cs" by simp_all
    show ?thesis
    proof (cases "bufidx s = MAX_FLOAT_CHAR_SZ")
      case True
      then show ?thesis using False c by (simp add: elemChar_def Let_def)
    next
      case lt: False
      with Cons.prems have b: "bufidx ?s1 \<le> MAX_FLOAT_CHAR_SZ" by simp
      from Cons.prems False have l: "MAX_FLOAT_CHAR_SZ < bufidx ?s1 + length (strip cs)"
        by (simp add: strip_def)
      from Cons.IH [OF cs b l] obtain s' where
        "parseElems AtoF (cs @ z) ?s1 = Return ElementTooLong s'" "overrun s'" "elems s' = elems s"
        by auto
      moreover from lt Cons.prems have "\<not> MAX_FLOAT_CHAR_SZ < bufidx s + 1" by simp
      ultimately show ?thesis using False c by (simp add: elemChar_def Let_def)
    qed
  qed
qed

lemma parse_after_bracket:
  "vectorParseText AtoF (SQLITE_TEXT (Some (CHR ''['' # z))) v =
     parseBody AtoF v z \<lparr>elBuf = (\<lambda>_. CHR 0x00), bufidx = 0, vecidx = 0, elems = data v, overrun = False\<rparr>"
  by (simp add: vectorParseText_def)

lemma parse_literal_aux:
  assumes ok: "\<forall>e\<in>set es. validElement AtoF e \<and> length (strip e) \<le> MAX_FLOAT_CHAR_SZ"
    and ne: "es \<noteq> []"
  shows "vectorParseText AtoF (SQLITE_TEXT (Some (''['' @ commaJoin es @ '']'' @ rest))) v =
     (if length es < MAX_VECTOR_SZ
      then \<lparr>rc = int (length es), err = None,
            vec = v\<lparr>data := storeAll (data v) 0 (map (\<lambda>e. snd (AtoF (strip e))) es),
                    dims := length es\<rparr>,
            elBufOverrun = False\<rparr>
      else \<lparr>rc = -1, err = Some TooManyDimensions,
            vec = v\<lparr>data := storeAll (data v) 0
                      (map (\<lambda>e. snd (AtoF (strip e))) (take MAX_VECTOR_SZ es))\<rparr>,
            elBufOverrun = False\<rparr>)"
proof -
  let ?s = "\<lparr>elBuf = (\<lambda>_. CHR 0x00), bufidx = 0, vecidx = 0, elems = data v, overrun = False\<rparr> :: 'a parse_locals"
  have "bufidx ?s = 0" "vecidx ?s < MAX_VECTOR_SZ" by (simp_all add: MAX_VECTOR_SZ_def)
  from parseBody_elements [OF ok ne this, of v rest] show ?thesis
    by (simp add: parse_after_bracket)
qed

lemma vectorParseText_empty_brackets:
  "vectorParseText AtoF (SQLITE_TEXT (Some (''[]'' @ rest))) v =
     \<lparr>rc = 0, err = None, vec = v\<lparr>data := data v, dims := 0\<rparr>, elBufOverrun = False\<rparr>"
  by (simp add: parse_after_bracket parseBody_def parseTail_def)

subsection \<open>Facts about the sample number syntax\<close>

lemma specAtoF_samples:
  "validElement specAtoF ''1''" "validElement specAtoF '' 2.5''" "validElement specAtoF ''-3e2''"
  "length (strip ''1'') \<le> MAX_FLOAT_CHAR_SZ" "length (strip '' 2.5'') \<le> MAX_FLOAT_CHAR_SZ"
  "length (strip ''-3e2'') \<le> MAX_FLOAT_CHAR_SZ"
  "snd (specAtoF (strip ''1'')) = ''1''" "snd (specAtoF (strip '' 2.5'')) = ''2.5''"
  "snd (specAtoF (strip ''-3e2'')) = ''-3e2''"
  by code_simp+

lemma zeros_plain: "list_all elemChar (replicate n CHR ''0'')" "strip (replicate n CHR ''0'') = replicate n CHR ''0''"
  by (simp_all add: list_all_iff elemChar_def strip_def sqlite3Isspace_def)

lemma isFloatLiteral_zeros: "0 < n \<Longrightarrow> isFloatLiteral (replicate n CHR ''0'')"
proof -
  assume "0 < n"
  then obtain m where n: "n = Suc m" by (cases n) auto
  have d: "sqlite3Isdigit CHR ''0''" by (simp add: sqlite3Isdigit_def)
  have o: "optSign (replicate n CHR ''0'') = replicate n CHR ''0''"
    by (simp add: optSign_def n)
  show ?thesis
    unfolding isFloatLiteral_def o Let_def
    using d by (simp add: takeWhile_replicate dropWhile_replicate n)
qed

lemma zeros_valid: "0 < n \<Longrightarrow> validElement specAtoF (replicate n CHR ''0'')"
  by (simp add: validElement_def zeros_plain specAtoF_def isFloatLiteral_zeros)

lemma vectorParseText_too_long:
  assumes "list_all elemChar cs" "MAX_FLOAT_CHAR_SZ < length (strip cs)"
  shows "vectorParseText AtoF (SQLITE_TEXT (Some (CHR ''['' # cs @ z))) v =
     \<lparr>rc = -1, err = Some ElementTooLong, vec = v\<lparr>data := data v\<rparr>, elBufOverrun = True\<rparr>"
proof -
  let ?s = "\<lparr>elBuf = (\<lambda>_. CHR 0x00), bufidx = 0, vecidx = 0, elems = data v, overrun = False\<rparr> :: 'a parse_locals"
  have "bufidx ?s \<le> MAX_FLOAT_CHAR_SZ" "MAX_FLOAT_CHAR_SZ < bufidx ?s + length (strip cs)"
    using assms by simp_all
  from parseElems_too_long [OF assms(1) this, of AtoF z] obtain s' where
    "parseElems AtoF (cs @ z) ?s = Return ElementTooLong s'" "overrun s'" "elems s' = data v"
    by auto
  then show ?thesis by (simp add: parse_after_bracket parseBody_def parseFail_def)
qed

lemma ones_plain: "list_all elemChar (replicate n CHR ''1'')" "strip (replicate n CHR ''1'') = replicate n CHR ''1''"
  by (simp_all add: list_all_iff elemChar_def strip_def sqlite3Isspace_def)

lemma vectorParseText_too_long_ones:
  "MAX_FLOAT_CHAR_SZ < n \<Longrightarrow>
   vectorParseText AtoF (SQLITE_TEXT (Some (CHR ''['' # replicate n CHR ''1''))) v =
     \<lparr>rc = -1, err = Some ElementTooLong, vec = v\<lparr>data := data v\<rparr>, elBufOverrun = True\<rparr>"
  using vectorParseText_too_long [where cs = "replicate n CHR ''1''" and z = "[]" and AtoF = AtoF and v = v]
  by (simp add: ones_plain)

lemma vectorParseText_ignores_rest:
  "vectorParseText AtoF (SQLITE_TEXT (Some (z @ CHR '']'' # rest))) v =
   vectorParseText AtoF (SQLITE_TEXT (Some (z @ '']''))) v"
proof (cases "\<forall>c\<in>set z. sqlite3Isspace c")
  case True
  then have "dropWhile sqlite3Isspace (z @ w) = dropWhile sqlite3Isspace w" for w
    by (induction z) simp_all
  then show ?thesis by (simp add: vectorParseText_def)
next
  case False
  then obtain x where x: "x \<in> set z" "\<not> sqlite3Isspace x" by auto
  then have d: "dropWhile sqlite3Isspace (z @ w) = dropWhile sqlite3Isspace z @ w" for w
    by (rule dropWhile_append1)
  from x have "dropWhile sqlite3Isspace z \<noteq> []" by (auto simp: dropWhile_eq_Nil_conv)
  then obtain c z' where z': "dropWhile sqlite3Isspace z = c # z'"
    by (cases "dropWhile sqlite3Isspace z") auto
  show ?thesis
    using parseBody_ignores_rest [of AtoF v z' rest]
    by (simp add: vectorParseText_def d z')
qed

lemma firstNonSpace_dropWhile:
  "firstNonSpace z = (case dropWhile sqlite3Isspace z of [] \<Rightarrow> None | c # _ \<Rightarrow> Some c)"
  by (induction z) (simp_all add: firstNonSpace_def)

lemma parseElems_errors:
  "parseElems AtoF z s = Return e s' \<Longrightarrow> e \<in> {ElementTooLong, InvalidNumber, TooManyDimensions}"
proof (induction z arbitrary: s)
  case Nil
  then show ?case by simp
next
  case (Cons c z)
  from Cons.prems show ?case
    by (auto simp: Let_def split: if_splits prod.splits dest: Cons.IH)
qed

lemma parseBody_errors:
  "err (parseBody AtoF v z s) \<in>
     {None, Some ElementTooLong, Some InvalidNumber, Some TooManyDimensions, Some UnterminatedLiteral}"
proof (cases "parseElems AtoF z s")
  case (Return e s')
  with parseElems_errors [OF Return] show ?thesis
    by (auto simp: parseBody_def parseFail_def)
next
  case (LoopEnd z' s')
  then show ?thesis
    by (auto simp: parseBody_def parseTail_def parseFail_def Let_def split: prod.splits)
qed

lemma sample_parse_12: "vectorParseText specAtoF (SQLITE_TEXT (Some ''[1,2]'')) sampleVector =
      \<lparr>rc = 2, err = None,
       vec = sampleVector\<lparr>data := storeAll (data sampleVector) 0 [''1'', ''2''], dims := 2\<rparr>,
       elBufOverrun = False\<rparr>"
proof -
  have two: "validElement specAtoF ''2''" "length (strip ''2'') \<le> MAX_FLOAT_CHAR_SZ"
    "snd (specAtoF (strip ''2'')) = ''2''"
    by code_simp+
  have v: "\<forall>e\<in>set [''1'', ''2'']. validElement specAtoF e \<and> length (strip e) \<le> MAX_FLOAT_CHAR_SZ"
    by (simp_all add: specAtoF_samples two)
  from parse_literal_aux [OF v, of "[]" sampleVector]
  show ?thesis by (simp add: MAX_VECTOR_SZ_def specAtoF_samples two)
qed

lemma specAtoF_1x: "specAtoF ''x'' = (0, ''x'')" "specAtoF ''1'' = (1, ''1'')"
  by (simp_all add: specAtoF_def isFloatLiteral_def optSign_def sqlite3Isdigit_def Let_def)

lemma parse_1x_err:
  "err (vectorParseText specAtoF (SQLITE_TEXT (Some ''[1,x'')) sampleVector) = Some InvalidNumber"
  by (simp add: vectorParseText_def parseBody_def parseTail_def parseFail_def elText_def Let_def
      sqlite3Isspace_def MAX_FLOAT_CHAR_SZ_def MAX_VECTOR_SZ_def specAtoF_1x)

lemma sample_parse_1: "vectorParseText specAtoF (SQLITE_TEXT (Some ''[1]'')) sampleVector =
      \<lparr>rc = 1, err = None,
       vec = sampleVector\<lparr>data := storeAll (data sampleVector) 0 [''1''], dims := 1\<rparr>,
       elBufOverrun = False\<rparr>"
proof -
  have v: "\<forall>e\<in>set [''1'']. validElement specAtoF e \<and> length (strip e) \<le> MAX_FLOAT_CHAR_SZ"
    by (simp_all add: specAtoF_samples)
  from parse_literal_aux [OF v, of "[]" sampleVector]
  show ?thesis by (simp add: MAX_VECTOR_SZ_def specAtoF_samples)
qed

subsection \<open>The type tag of a decoded vector\<close>

lemma parseBody_type: "type (vec (parseBody AtoF v z s)) = type v"
  by (cases "parseElems AtoF z s")
     (simp_all add: parseBody_def parseTail_def parseFail_def Let_def split: prod.splits)

lemma vectorParseText_type: "type (vec (vectorParseText AtoF arg v)) = type v"
  by (simp add: vectorParseText_def parseBody_type
      split: sqlite3_value.splits option.splits list.splits)

lemma vectorParse_type:
  "type v = VECTOR_TYPE_FLOAT32 \<Longrightarrow>
   \<forall>b. arg = SQLITE_BLOB b \<longrightarrow> type (snd (F3ParseBlob arg v)) = VECTOR_TYPE_FLOAT32 \<Longrightarrow>
   type (vec (vectorParse AtoF F3ParseBlob arg v)) = VECTOR_TYPE_FLOAT32"
  by (cases arg)
     (auto simp: vectorParse_def vectorParseBlob_def vectorParseText_type split: prod.splits)

lemma sample_parse_21: "vectorParseText specAtoF (SQLITE_TEXT (Some ''[2,1]'')) sampleVector =
      \<lparr>rc = 2, err = None,
       vec = sampleVector\<lparr>data := storeAll (data sampleVector) 0 [''2'', ''1''], dims := 2\<rparr>,
       elBufOverrun = False\<rparr>"
proof -
  have two: "validElement specAtoF ''2''" "length (strip ''2'') \<le> MAX_FLOAT_CHAR_SZ"
    "snd (specAtoF (strip ''2'')) = ''2''"
    by code_simp+
  have v: "\<forall>e\<in>set [''2'', ''1'']. validElement specAtoF e \<and> length (strip e) \<le> MAX_FLOAT_CHAR_SZ"
    by (simp_all add: specAtoF_samples two)
  from parse_literal_aux [OF v, of "[]" sampleVector]
  show ?thesis by (simp add: MAX_VECTOR_SZ_def specAtoF_samples two)
qed

subsection \<open>Facts about the index integration\<close>

lemma stricmp_cos: "sqlite3_stricmp ''diskann_cosine_ops'' ''diskann_cosine_ops'' = 0"
  "sqlite3_stricmp ''DiskANN_Cosine_Ops'' ''diskann_cosine_ops'' = 0"
  "sqlite3_stricmp ''euclidean_ops'' ''diskann_cosine_ops'' \<noteq> 0"
  by (simp_all add: sqlite3_stricmp_def cstr_def sqlite3UpperToLower_def)

lemma parseVectorDims_3: "parseVectorDims ''FLOAT32(3)'' = 3"
  by (simp add: parseVectorDims_def sqlite3_strnicmp_def cstr_def sqlite3UpperToLower_def
      sqlite3Isdigit_def)

subsection \<open>The loop of \<^verbatim>\<open>parseVectorDims\<close>\<close>

lemma sint_of_nat_small: "n < 2 ^ 31 \<Longrightarrow> sint (of_nat n :: 32 word) = int n"
proof -
  assume n: "n < 2 ^ 31"
  have "sint (of_nat n :: 32 word) = signed_take_bit 31 (int n)"
    by (simp add: signed_of_nat)
  also have "\<dots> = int n"
    using n by (intro signed_take_bit_int_eq_self) simp_all
  finally show ?thesis .
qed

lemma lower_nul: "sqlite3UpperToLower c = CHR 0x00 \<longleftrightarrow> c = CHR 0x00"
  by (auto simp: sqlite3UpperToLower_def split: option.splits if_splits)

lemma digit_cases:
  "sqlite3Isdigit c \<Longrightarrow>
   c = CHR ''0'' \<or> c = CHR ''1'' \<or> c = CHR ''2'' \<or> c = CHR ''3'' \<or> c = CHR ''4'' \<or>
   c = CHR ''5'' \<or> c = CHR ''6'' \<or> c = CHR ''7'' \<or> c = CHR ''8'' \<or> c = CHR ''9''"
  by (simp add: sqlite3Isdigit_def)

lemma digit_word:
  "sqlite3Isdigit c \<Longrightarrow>
   (of_char c - 48 :: 32 word) = of_nat (of_char c - 48)"
  by (drule digit_cases) auto

lemma digit_not_special: "sqlite3Isdigit c \<Longrightarrow> c \<noteq> CHR 0x00 \<and> c \<noteq> CHR '')''"
  by (drule digit_cases) auto

lemma parseDimsLoop_eq:
  "parseDimsLoop z d =
     (if CHR '')'' \<in> set z \<and> list_all sqlite3Isdigit (takeWhile (\<lambda>c. c \<noteq> CHR '')'') z)
      then sint (foldl (\<lambda>n c. n * 10 + (of_char c - of_char CHR ''0'')) d
                  (takeWhile (\<lambda>c. c \<noteq> CHR '')'') z))
      else -1)"
proof (induction z arbitrary: d)
  case Nil
  then show ?case by simp
next
  case (Cons c z)
  show ?case
  proof (cases "sqlite3Isdigit c")
    case True
    from digit_not_special [OF True] have "c \<noteq> CHR 0x00" "c \<noteq> CHR '')''" "CHR '')'' \<noteq> c"
      by auto
    with True show ?thesis by (simp add: Cons.IH)
  next
    case False
    then show ?thesis by auto
  qed
qed

lemma horner_word:
  "list_all sqlite3Isdigit ds \<Longrightarrow>
   foldl (\<lambda>n c. n * 10 + (of_char c - of_char CHR ''0'')) (of_nat k :: 32 word) ds =
   of_nat (foldl (\<lambda>n c. 10 * n + (of_char c - 48)) k ds)"
proof (induction ds arbitrary: k)
  case Nil
  then show ?case by simp
next
  case (Cons c ds)
  then have c: "sqlite3Isdigit c" and ds: "list_all sqlite3Isdigit ds" by simp_all
  have "(of_nat k :: 32 word) * 10 + (of_char c - of_char CHR ''0'') = of_nat (10 * k + (of_char c - 48))"
    by (simp add: digit_word [OF c])
  then show ?case using Cons.IH [OF ds, of "10 * k + (of_char c - 48)"] by (simp add: mult.commute)
qed

lemma strnicmp_prefix:
  "sqlite3_strnicmp z ''FLOAT32('' 8 = 0 \<longleftrightarrow> map sqlite3UpperToLower (take 8 z) = ''float32(''"
proof -
  have lit: "map sqlite3UpperToLower (take 8 (cstr ''FLOAT32('')) = ''float32(''"
    by (simp add: cstr_def sqlite3UpperToLower_def)
  have "map sqlite3UpperToLower (take 8 (cstr z)) = ''float32('' \<longleftrightarrow>
        map sqlite3UpperToLower (take 8 z) = ''float32(''"
  proof
    assume a: "map sqlite3UpperToLower (take 8 (cstr z)) = ''float32(''"
    have "length (map sqlite3UpperToLower (take 8 (cstr z))) = length ''float32(''"
      by (simp only: a)
    then have l: "8 \<le> length (cstr z)" by simp
    have "z = cstr z @ dropWhile (\<lambda>c. c \<noteq> CHR 0x00) z" by (simp add: cstr_def)
    then have "take 8 z = take 8 (cstr z @ dropWhile (\<lambda>c. c \<noteq> CHR 0x00) z)" by simp
    also have "\<dots> = take 8 (cstr z)" using l by simp
    finally show "map sqlite3UpperToLower (take 8 z) = ''float32(''" using a by simp
  next
    assume a: "map sqlite3UpperToLower (take 8 z) = ''float32(''"
    have "\<forall>c\<in>set (take 8 z). c \<noteq> CHR 0x00"
    proof
      fix c assume "c \<in> set (take 8 z)"
      then have "sqlite3UpperToLower c \<in> set (map sqlite3UpperToLower (take 8 z))" by simp
      then have "sqlite3UpperToLower c \<noteq> CHR 0x00" unfolding a by auto
      then show "c \<noteq> CHR 0x00" by (simp add: lower_nul)
    qed
    then have "takeWhile (\<lambda>c. c \<noteq> CHR 0x00) (take 8 z @ drop 8 z) =
        take 8 z @ takeWhile (\<lambda>c. c \<noteq> CHR 0x00) (drop 8 z)"
      by (intro takeWhile_append2) simp
    then have c: "cstr z = take 8 z @ takeWhile (\<lambda>c. c \<noteq> CHR 0x00) (drop 8 z)"
      by (simp add: cstr_def)
    have "length (map sqlite3UpperToLower (take 8 z)) = length ''float32(''"
      by (simp only: a)
    then have "8 \<le> length z" by simp
    then have "take 8 (cstr z) = take 8 z" by (subst c) simp
    with a show "map sqlite3UpperToLower (take 8 (cstr z)) = ''float32(''" by simp
  qed
  then show ?thesis by (simp add: sqlite3_strnicmp_def lit)
qed

lemma parseVectorDims_samples:
  "parseVectorDims ''FLOAT32(3)xyz'' = 3"
  "parseVectorDims ''TEXT'' = -1"
  by (simp_all add: parseVectorDims_def sqlite3_strnicmp_def cstr_def sqlite3UpperToLower_def
      sqlite3Isdigit_def)

lemma float32Form_samples:
  "float32Form ''float32(128) not null''"
  "float32Digits ''float32(128) not null'' = ''128''"
  "decimalValue ''128'' = 128"
  "\<not> float32Form ''TEXT''"
  by (simp_all add: float32Form_def float32Digits_def decimalValue_def sqlite3UpperToLower_def
      sqlite3Isdigit_def)

lemma specVectorType_sample: "specVectorType ''FLOAT32(3)''"
  by (simp add: specVectorType_def sqlite3Isdigit_def)

subsection \<open>Bytes and blocks of the binary encoding\<close>

lemma f32_bytes_round_trip: "f32OfBytes (f32ToBytes w) = w"
  unfolding f32ToBytes_def f32OfBytes.simps
proof (rule bit_word_eqI)
  fix n
  assume "n < LENGTH(32)"
  then consider "n < 8" | "8 \<le> n" "n < 16" | "16 \<le> n" "n < 24" | "24 \<le> n" "n < 32"
    by force
  then show "bit (or (ucast (ucast w :: 8 word))
           (or (push_bit 8 (ucast (ucast (drop_bit 8 w) :: 8 word)))
             (or (push_bit 16 (ucast (ucast (drop_bit 16 w) :: 8 word)))
               (push_bit 24 (ucast (ucast (drop_bit 24 w) :: 8 word))))) :: 32 word) n = bit w n"
    by cases (auto simp: bit_simps)
qed

lemma length_f32ToBytes: "length (f32ToBytes w) = 4"
  by (simp add: f32ToBytes_def)

lemma block_nth:
  "\<forall>x\<in>set xs. length x = 4 \<Longrightarrow> i < length xs \<Longrightarrow>
   take 4 (drop (4 * i) (concat xs @ rest)) = xs ! i"
proof (induction xs arbitrary: i)
  case Nil
  then show ?case by simp
next
  case (Cons x xs)
  show ?case
  proof (cases i)
    case 0
    with Cons.prems show ?thesis by simp
  next
    case (Suc j)
    with Cons.prems have "take 4 (drop (4 * j) (concat xs @ rest)) = xs ! j"
      by (intro Cons.IH) simp_all
    with Suc Cons.prems show ?thesis by simp
  qed
qed

lemma length_concat_blocks:
  "length (concat (map (\<lambda>i. f32ToBytes (g i)) [0..<d])) = 4 * d"
  by (induction d) (simp_all add: length_f32ToBytes)

lemma sample_bytes:
  "f32ToBytes 0x3F800000 = [0x00, 0x00, 0x80, 0x3F]"
  "f32ToBytes 0x40000000 = [0x00, 0x00, 0x00, 0x40]"
  "f32ToBytes 0x40400000 = [0x00, 0x00, 0x40, 0x40]"
  by (simp_all add: f32ToBytes_def)

lemma sample_encoding:
  "vectorSerializeToBlob sampleF32 (replicate 12 0) 12 =
     (12, [0x00, 0x00, 0x80, 0x3F, 0x00, 0x00, 0x00, 0x40, 0x00, 0x00, 0x40, 0x40])"
proof -
  have u: "[0..<3] = [0, 1, 2]" by (simp add: upt_rec)
  show ?thesis
    by (simp add: vectorSerializeToBlob_def vectorF32SerializeToBlob_def sampleF32_def
        vectorDataSize_def u sample_bytes)
qed

section \<open>The claims\<close>

subsection \<open>C1: decoding a literal of valid elements\<close>

text \<open>
  C1, as amended. For every text literal \<open>[e1,...,en]\<close> whose elements are valid numeric
  literals of at most \<open>MAX_FLOAT_CHAR_SZ\<close> (1024) characters each, whitespace not counted:
  if \<open>n < MAX_VECTOR_SZ\<close> (16000), \<^verbatim>\<open>vectorParseText\<close> succeeds, returns \<open>n\<close>, sets the
  dimension count to exactly \<open>n\<close> and stores the value of the \<open>i\<close>-th element in cell \<open>i\<close>,
  without a store outside the scratch buffer; if \<open>n\<close> reaches \<open>MAX_VECTOR_SZ\<close>, it fails with
  \<open>TooManyDimensions\<close>; and the empty bracket pair \<open>[]\<close> decodes to a vector of zero
  dimensions. The bound on the length of an element is what the amendment adds: the claim
  as stated has no such bound, and a longer valid number is refused (see the
  counterexample).
\<close>

theorem vectorParseText_literal:
  assumes "\<forall>e\<in>set es. validElement AtoF e \<and> length (strip e) \<le> MAX_FLOAT_CHAR_SZ"
  shows "(length es < MAX_VECTOR_SZ \<longrightarrow>
           (let r = vectorParseText AtoF (SQLITE_TEXT (Some (''['' @ commaJoin es @ '']''))) v
            in rc r = int (length es) \<and> err r = None \<and> dims (vec r) = length es \<and>
               (\<forall>i<length es. data (vec r) i = snd (AtoF (strip (es ! i)))) \<and>
               \<not> elBufOverrun r)) \<and>
         (MAX_VECTOR_SZ \<le> length es \<longrightarrow>
           (let r = vectorParseText AtoF (SQLITE_TEXT (Some (''['' @ commaJoin es @ '']''))) v
            in rc r = -1 \<and> err r = Some TooManyDimensions)) \<and>
         (let r = vectorParseText AtoF (SQLITE_TEXT (Some ''[]'')) v
          in rc r = 0 \<and> err r = None \<and> dims (vec r) = 0)"
proof (cases "es = []")
  case True
  with vectorParseText_empty_brackets [of AtoF "[]" v] show ?thesis
    by (simp add: MAX_VECTOR_SZ_def)
next
  case False
  note aux = parse_literal_aux [OF assms False, of "[]" v, simplified]
  have e: "let r = vectorParseText AtoF (SQLITE_TEXT (Some ''[]'')) v
          in rc r = 0 \<and> err r = None \<and> dims (vec r) = 0"
    using vectorParseText_empty_brackets [of AtoF "[]" v] by simp
  show ?thesis
  proof (cases "length es < MAX_VECTOR_SZ")
    case True
    then have "\<not> MAX_VECTOR_SZ \<le> length es" by simp
    moreover have "\<forall>i<length es. storeAll (data v) 0 (map (\<lambda>e. snd (AtoF (strip e))) es) i
        = snd (AtoF (strip (es ! i)))"
      by (simp add: storeAll_apply)
    ultimately show ?thesis using True e by (simp add: aux Let_def)
  next
    case False
    then show ?thesis using e by (simp add: aux Let_def)
  qed
qed

theorem vectorParseText_literal_witness:
  "list_all (\<lambda>e. validElement specAtoF e \<and> length (strip e) \<le> MAX_FLOAT_CHAR_SZ)
     [''1'', '' 2.5'', ''-3e2''] \<and>
   length [''1'', '' 2.5'', ''-3e2''] < MAX_VECTOR_SZ \<and>
   rc (vectorParseText specAtoF (SQLITE_TEXT (Some ''[1, 2.5,-3e2]'')) sampleVector) = 3 \<and>
   err (vectorParseText specAtoF (SQLITE_TEXT (Some ''[1, 2.5,-3e2]'')) sampleVector) = None \<and>
   dims (vec (vectorParseText specAtoF (SQLITE_TEXT (Some ''[1, 2.5,-3e2]'')) sampleVector)) = 3 \<and>
   data (vec (vectorParseText specAtoF (SQLITE_TEXT (Some ''[1, 2.5,-3e2]'')) sampleVector)) 1 = ''2.5'' \<and>
   list_all (\<lambda>e. validElement specAtoF e \<and> length (strip e) \<le> MAX_FLOAT_CHAR_SZ)
     (replicate 16000 ''1'') \<and>
   MAX_VECTOR_SZ \<le> length (replicate 16000 ''1'') \<and>
   err (vectorParseText specAtoF
         (SQLITE_TEXT (Some (''['' @ commaJoin (replicate 16000 ''1'') @ '']''))) sampleVector)
     = Some TooManyDimensions"
proof -
  have h1: "\<forall>e\<in>set [''1'', '' 2.5'', ''-3e2''].
      validElement specAtoF e \<and> length (strip e) \<le> MAX_FLOAT_CHAR_SZ"
    by (simp add: specAtoF_samples)
  have h2: "\<forall>e\<in>set (replicate 16000 ''1'').
      validElement specAtoF e \<and> length (strip e) \<le> MAX_FLOAT_CHAR_SZ"
    by (simp add: specAtoF_samples)
  have n1: "length [''1'', '' 2.5'', ''-3e2''] < MAX_VECTOR_SZ" by (simp add: MAX_VECTOR_SZ_def)
  have n2: "MAX_VECTOR_SZ \<le> length (replicate 16000 ''1'')" by (simp add: MAX_VECTOR_SZ_def)
  from vectorParseText_literal [OF h1, of sampleVector] n1
  have a: "let r = vectorParseText specAtoF (SQLITE_TEXT (Some ''[1, 2.5,-3e2]'')) sampleVector
      in rc r = 3 \<and> err r = None \<and> dims (vec r) = 3 \<and> data (vec r) 1 = ''2.5''"
    by (simp add: Let_def specAtoF_samples)
  from vectorParseText_literal [OF h2, of sampleVector] n2
  have b: "err (vectorParseText specAtoF
         (SQLITE_TEXT (Some (''['' @ commaJoin (replicate 16000 ''1'') @ '']''))) sampleVector)
     = Some TooManyDimensions"
    by (simp add: Let_def)
  from h1 h2 n1 n2 a b show ?thesis by (simp add: Let_def list_all_iff)
qed

text \<open>
  The claim as stated fails: a single element of 1025 zeros is a valid numeric literal, and
  the literal holds fewer than \<open>MAX_VECTOR_SZ\<close> elements, yet decoding fails with
  \<open>ElementTooLong\<close>.
\<close>

theorem vectorParseText_literal_counterexample:
  "validElement specAtoF (replicate 1025 CHR ''0'') \<and>
   length [replicate 1025 CHR ''0''] < MAX_VECTOR_SZ \<and>
   rc (vectorParseText specAtoF
         (SQLITE_TEXT (Some (''['' @ commaJoin [replicate 1025 CHR ''0''] @ '']''))) sampleVector) = -1 \<and>
   err (vectorParseText specAtoF
         (SQLITE_TEXT (Some (''['' @ commaJoin [replicate 1025 CHR ''0''] @ '']''))) sampleVector)
     = Some ElementTooLong"
  using vectorParseText_too_long [of "replicate 1025 CHR ''0''" specAtoF "'']''" sampleVector]
  by (simp add: zeros_valid zeros_plain MAX_VECTOR_SZ_def MAX_FLOAT_CHAR_SZ_def)

subsection \<open>C2: the binary round trip\<close>

text \<open>
  C2. For every FLOAT32 vector \<open>v\<close> with fewer than \<open>MAX_VECTOR_SZ\<close> dimensions and every
  buffer large enough for its encoding: \<^verbatim>\<open>vectorSerializeToBlob\<close> writes \<open>4 \<times> dims\<close> bytes, and
  \<^verbatim>\<open>vectorDeserializeFromBlob\<close> applied to these bytes gives a vector with the dimension
  count of \<open>v\<close> and, cell by cell, the elements of \<open>v\<close>; the bytes of each element in the blob
  are the bytes of the element of \<open>v\<close>, and encoding the decoded vector gives the same bytes
  again. The two functions dispatch to \<^verbatim>\<open>vectorF32SerializeToBlob\<close> and
  \<^verbatim>\<open>vectorF32DeserializeFromBlob\<close>, which are modelled from the spec.
\<close>

theorem blob_round_trip:
  assumes "type v = VECTOR_TYPE_FLOAT32" and "type p = VECTOR_TYPE_FLOAT32"
    and "dims v < MAX_VECTOR_SZ"
    and "vectorDataSize (type v) (dims v) \<le> blobSize"
    and "enc = vectorSerializeToBlob v blob blobSize"
    and "dec = vectorDeserializeFromBlob p (snd enc) (fst enc)"
  shows "fst enc = 4 * dims v \<and> fst dec = fst enc \<and>
         dims (snd dec) = dims v \<and>
         (\<forall>i<dims v. data (snd dec) i = data v i) \<and>
         (\<forall>i<dims v. take 4 (drop (4 * i) (snd enc)) = f32ToBytes (data v i)) \<and>
         take (fst enc) (snd (vectorSerializeToBlob (snd dec) blob2 (fst enc))) = take (fst enc) (snd enc)"
proof -
  let ?bytes = "concat (map (\<lambda>i. f32ToBytes (data v i)) [0..<dims v])"
  have sz: "vectorDataSize VECTOR_TYPE_FLOAT32 (dims v) = 4 * dims v"
    by (simp add: vectorDataSize_def)
  have enc: "enc = (4 * dims v, ?bytes @ drop (4 * dims v) blob)"
    using assms(1,4,5) by (simp add: vectorSerializeToBlob_def vectorF32SerializeToBlob_def sz)
  have blk: "take 4 (drop (4 * i) (?bytes @ drop (4 * dims v) blob)) = f32ToBytes (data v i)"
    if "i < dims v" for i
    using block_nth [of "map (\<lambda>i. f32ToBytes (data v i)) [0..<dims v]" i "drop (4 * dims v) blob"] that
    by (simp add: length_f32ToBytes)
  define D where "D = (\<lambda>i. if i < dims v
      then f32OfBytes (take 4 (drop (4 * i) (?bytes @ drop (4 * dims v) blob))) else data p i)"
  have dec: "dec = (4 * dims v, p\<lparr>dims := dims v, data := D\<rparr>)"
    using assms(2,6)
    by (simp add: enc vectorDeserializeFromBlob_def vectorF32DeserializeFromBlob_def D_def)
  have Dv: "D i = data v i" if "i < dims v" for i
    unfolding D_def using that by (simp only: if_True blk [OF that] f32_bytes_round_trip)
  have d: "\<forall>i<dims v. data (snd dec) i = data v i"
    by (simp add: dec Dv)
  have m: "map (\<lambda>i. f32ToBytes (D i)) [0..<dims v] = map (\<lambda>i. f32ToBytes (data v i)) [0..<dims v]"
    by (rule map_cong) (simp_all add: Dv)
  have re: "snd (vectorSerializeToBlob (snd dec) blob2 (fst enc)) = ?bytes @ drop (4 * dims v) blob2"
    using assms(2) by (simp add: vectorSerializeToBlob_def vectorF32SerializeToBlob_def sz dec enc m)
  have c1: "fst enc = 4 * dims v" by (simp add: enc)
  have c2: "fst dec = fst enc" by (simp add: enc dec)
  have c3: "dims (snd dec) = dims v" by (simp add: dec)
  have c5: "\<forall>i<dims v. take 4 (drop (4 * i) (snd enc)) = f32ToBytes (data v i)"
    unfolding enc snd_conv using blk by blast
  have c6: "take (fst enc) (snd (vectorSerializeToBlob (snd dec) blob2 (fst enc))) = take (fst enc) (snd enc)"
    unfolding re by (simp add: enc length_concat_blocks)
  from c1 c2 c3 d c5 c6 show ?thesis by blast
qed

theorem blob_round_trip_witness:
  "type sampleF32 = VECTOR_TYPE_FLOAT32 \<and> dims sampleF32 < MAX_VECTOR_SZ \<and>
   vectorDataSize (type sampleF32) (dims sampleF32) \<le> 12 \<and>
   vectorSerializeToBlob sampleF32 (replicate 12 0) 12 =
     (12, [0x00, 0x00, 0x80, 0x3F, 0x00, 0x00, 0x00, 0x40, 0x00, 0x00, 0x40, 0x40]) \<and>
   dims (snd (vectorDeserializeFromBlob (vectorInit VECTOR_TYPE_FLOAT32 MAX_VECTOR_SZ (\<lambda>_. 0))
          [0x00, 0x00, 0x80, 0x3F, 0x00, 0x00, 0x00, 0x40, 0x00, 0x00, 0x40, 0x40] 12)) = 3 \<and>
   data (snd (vectorDeserializeFromBlob (vectorInit VECTOR_TYPE_FLOAT32 MAX_VECTOR_SZ (\<lambda>_. 0))
          [0x00, 0x00, 0x80, 0x3F, 0x00, 0x00, 0x00, 0x40, 0x00, 0x00, 0x40, 0x40] 12)) 2 = 0x40400000"
proof -
  have h: "type sampleF32 = VECTOR_TYPE_FLOAT32"
    "type (vectorInit VECTOR_TYPE_FLOAT32 MAX_VECTOR_SZ (\<lambda>_. 0 :: 32 word)) = VECTOR_TYPE_FLOAT32"
    "dims sampleF32 < MAX_VECTOR_SZ"
    "vectorDataSize (type sampleF32) (dims sampleF32) \<le> 12"
    by (simp_all add: sampleF32_def vectorInit_def MAX_VECTOR_SZ_def vectorDataSize_def)
  from blob_round_trip [OF h refl refl, of "replicate 12 0" "[]"]
  have "dims (snd (vectorDeserializeFromBlob (vectorInit VECTOR_TYPE_FLOAT32 MAX_VECTOR_SZ (\<lambda>_. 0))
          [0x00, 0x00, 0x80, 0x3F, 0x00, 0x00, 0x00, 0x40, 0x00, 0x00, 0x40, 0x40] 12)) = dims sampleF32 \<and>
     (\<forall>i<dims sampleF32.
       data (snd (vectorDeserializeFromBlob (vectorInit VECTOR_TYPE_FLOAT32 MAX_VECTOR_SZ (\<lambda>_. 0))
          [0x00, 0x00, 0x80, 0x3F, 0x00, 0x00, 0x00, 0x40, 0x00, 0x00, 0x40, 0x40] 12)) i = data sampleF32 i)"
    unfolding sample_encoding by simp
  moreover have s: "dims sampleF32 = 3" "data sampleF32 2 = 0x40400000"
    by (simp_all add: sampleF32_def)
  ultimately have "dims (snd (vectorDeserializeFromBlob (vectorInit VECTOR_TYPE_FLOAT32 MAX_VECTOR_SZ (\<lambda>_. 0))
          [0x00, 0x00, 0x80, 0x3F, 0x00, 0x00, 0x00, 0x40, 0x00, 0x00, 0x40, 0x40] 12)) = 3 \<and>
       data (snd (vectorDeserializeFromBlob (vectorInit VECTOR_TYPE_FLOAT32 MAX_VECTOR_SZ (\<lambda>_. 0))
          [0x00, 0x00, 0x80, 0x3F, 0x00, 0x00, 0x00, 0x40, 0x00, 0x00, 0x40, 0x40] 12)) 2 = 0x40400000"
    by auto
  with h(1,3,4) sample_encoding show ?thesis by blast
qed

subsection \<open>C3: the stores into the scratch buffer\<close>

text \<open>
  C3. The claim: no character is ever stored at an index at or beyond the capacity of the
  1024-byte scratch buffer, and an element that is too long fails with \<open>ElementTooLong\<close>
  before any such store. The code stores first and tests afterwards
  (\<^verbatim>\<open>elBuf[bufidx++] = this; if (bufidx > MAX_FLOAT_CHAR_SZ)\<close>): on the input \<open>[\<close> followed
  by 1025 times the character \<open>1\<close>, the 1025th character is stored at index 1024, outside
  the buffer, and only then the parse fails with \<open>ElementTooLong\<close>. For every input, a
  failure with \<open>ElementTooLong\<close> and a store outside the buffer come together.
\<close>

theorem elBuf_store_past_capacity:
  "rc (vectorParseText AtoF (SQLITE_TEXT (Some (CHR ''['' # replicate 1025 CHR ''1''))) v) = -1 \<and>
   err (vectorParseText AtoF (SQLITE_TEXT (Some (CHR ''['' # replicate 1025 CHR ''1''))) v)
     = Some ElementTooLong \<and>
   elBufOverrun (vectorParseText AtoF (SQLITE_TEXT (Some (CHR ''['' # replicate 1025 CHR ''1''))) v) \<and>
   (err (vectorParseText AtoF arg v) = Some ElementTooLong) = elBufOverrun (vectorParseText AtoF arg v)"
proof -
  have "MAX_FLOAT_CHAR_SZ < 1025" by (simp add: MAX_FLOAT_CHAR_SZ_def)
  then have "vectorParseText AtoF (SQLITE_TEXT (Some (CHR ''['' # replicate 1025 CHR ''1''))) v =
     \<lparr>rc = -1, err = Some ElementTooLong, vec = v\<lparr>data := data v\<rparr>, elBufOverrun = True\<rparr>"
    by (rule vectorParseText_too_long_ones)
  then show ?thesis by (simp add: vectorParseText_overrun)
qed

theorem elBuf_store_past_capacity_witness:
  "rc (vectorParseText specAtoF (SQLITE_TEXT (Some (CHR ''['' # replicate 1025 CHR ''1''))) sampleVector) = -1 \<and>
   err (vectorParseText specAtoF (SQLITE_TEXT (Some (CHR ''['' # replicate 1025 CHR ''1''))) sampleVector)
     = Some ElementTooLong \<and>
   elBufOverrun (vectorParseText specAtoF (SQLITE_TEXT (Some (CHR ''['' # replicate 1025 CHR ''1''))) sampleVector)"
  using elBuf_store_past_capacity [of specAtoF sampleVector SQLITE_NULL] by blast

subsection \<open>C4: an unknown index method\<close>

text \<open>
  C4, as amended. \<^verbatim>\<open>vectorIndexCreate\<close> fails with \<open>UnknownIndexMethod\<close> whenever the
  first token of the list is not the recognized one (\<open>diskann_cosine_ops\<close>, compared
  ignoring the case of ASCII letters), and only then; in that failure case it returns \<open>-1\<close>,
  hands no statement to \<^verbatim>\<open>sqlite3_exec\<close> (the shadow storage is not provisioned) and does
  not call the engine. The claim as stated asks for exactly one recognized token and for a
  failure when the token is absent; the loop looks at the first token only (see the
  counterexample).
\<close>

theorem vectorIndexCreate_unknown_method:
  "(pUsing = zNm # a \<and> sqlite3_stricmp zNm ''diskann_cosine_ops'' \<noteq> 0 \<longrightarrow>
      vectorIndexCreate exec diskAnnCreateIndex pIdx pUsing =
        \<lparr>status = -1, errorMsg = Some (UnknownIndexMethod zNm), execLog = [], annCreateLog = []\<rparr>) \<and>
   (errorMsg (vectorIndexCreate exec diskAnnCreateIndex pIdx pUsing) = Some (UnknownIndexMethod t) \<longrightarrow>
      status (vectorIndexCreate exec diskAnnCreateIndex pIdx pUsing) = -1 \<and>
      execLog (vectorIndexCreate exec diskAnnCreateIndex pIdx pUsing) = [] \<and>
      annCreateLog (vectorIndexCreate exec diskAnnCreateIndex pIdx pUsing) = [] \<and>
      (\<exists>a. pUsing = t # a) \<and> sqlite3_stricmp t ''diskann_cosine_ops'' \<noteq> 0)"
proof (intro conjI impI)
  assume "pUsing = zNm # a \<and> sqlite3_stricmp zNm ''diskann_cosine_ops'' \<noteq> 0"
  then show "vectorIndexCreate exec diskAnnCreateIndex pIdx pUsing =
        \<lparr>status = -1, errorMsg = Some (UnknownIndexMethod zNm), execLog = [], annCreateLog = []\<rparr>"
    by (simp add: vectorIndexCreate_def)
next
  assume e: "errorMsg (vectorIndexCreate exec diskAnnCreateIndex pIdx pUsing) = Some (UnknownIndexMethod t)"
  have l: "usingLoop pUsing 0 = Inl t"
  proof (cases "usingLoop pUsing 0")
    case (Inl x)
    with e show ?thesis by (simp add: vectorIndexCreate_def)
  next
    case (Inr n)
    with e show ?thesis by (simp add: vectorIndexCreate_def Let_def split: if_splits)
  qed
  then show "status (vectorIndexCreate exec diskAnnCreateIndex pIdx pUsing) = -1"
    and "execLog (vectorIndexCreate exec diskAnnCreateIndex pIdx pUsing) = []"
    and "annCreateLog (vectorIndexCreate exec diskAnnCreateIndex pIdx pUsing) = []"
    by (simp_all add: vectorIndexCreate_def)
  from l show "\<exists>a. pUsing = t # a" by (cases pUsing) (auto split: if_splits)
  from l show "sqlite3_stricmp t ''diskann_cosine_ops'' \<noteq> 0"
    by (cases pUsing) (auto split: if_splits)
qed

theorem vectorIndexCreate_unknown_method_witness:
  "sqlite3_stricmp ''euclidean_ops'' ''diskann_cosine_ops'' \<noteq> 0 \<and>
   vectorIndexCreate (\<lambda>_. 0) (\<lambda>_ _ _. 0) (sampleIndex ''FLOAT32(3)'') [''euclidean_ops''] =
     \<lparr>status = -1, errorMsg = Some (UnknownIndexMethod ''euclidean_ops''), execLog = [],
      annCreateLog = []\<rparr>"
  using vectorIndexCreate_unknown_method [of "[''euclidean_ops'']" "''euclidean_ops''" "[]"
      "\<lambda>_. 0" "\<lambda>_ _ _. 0" "sampleIndex ''FLOAT32(3)''"]
  by (simp add: stricmp_cos)

text \<open>
  The claim as stated fails: with an empty token list, and with a recognized token followed
  by an unrecognized one, \<^verbatim>\<open>vectorIndexCreate\<close> reports no error, provisions the shadow
  table and creates the index.
\<close>

theorem vectorIndexCreate_unknown_method_counterexample:
  "vectorIndexCreate (\<lambda>_. 0) (\<lambda>_ _ _. 0) (sampleIndex ''FLOAT32(3)'') [] =
     \<lparr>status = 0, errorMsg = None,
      execLog = [''CREATE TABLE IF NOT EXISTS idx_shadow (data BLOB)''],
      annCreateLog = [(''idx'', 3, VECTOR_DISTANCE_COS)]\<rparr> \<and>
   vectorIndexCreate (\<lambda>_. 0) (\<lambda>_ _ _. 0) (sampleIndex ''FLOAT32(3)'')
       [''diskann_cosine_ops'', ''euclidean_ops''] =
     \<lparr>status = 0, errorMsg = None,
      execLog = [''CREATE TABLE IF NOT EXISTS idx_shadow (data BLOB)''],
      annCreateLog = [(''idx'', 3, VECTOR_DISTANCE_COS)]\<rparr>"
  by (simp add: vectorIndexCreate_def sampleIndex_def sqlite3ColumnType_def parseVectorDims_3
      stricmp_cos SQLITE_OK_def VECTOR_DISTANCE_COS_def Let_def)

subsection \<open>C5: the status of the external engine\<close>

text \<open>
  C5. The claim: the status of every call into the external engine is propagated verbatim.
  It holds for \<^verbatim>\<open>vectorIndexCursorInit\<close>, which returns the status of \<^verbatim>\<open>diskAnnOpenIndex\<close>,
  and for \<^verbatim>\<open>vectorIndexCreate\<close>, which calls \<^verbatim>\<open>diskAnnCreateIndex\<close> at most once and then
  returns its status. It fails for \<^verbatim>\<open>vectorIndexInsert\<close>: the code calls \<^verbatim>\<open>diskAnnInsert\<close>
  once, drops the status it returns and returns 0, whatever the engine answered.
\<close>

theorem engine_status_propagation:
  "vectorIndexInsert F32InitFromBlob diskAnnInsert pCur [SQLITE_BLOB blob, SQLITE_INTEGER rowid] =
     Some \<lparr>insertStatus = 0,
           annInsertLog =
             [(index pCur, vectorInitStatic F32InitFromBlob VECTOR_TYPE_FLOAT32 blob, rowid,
               diskAnnInsert (index pCur) (vectorInitStatic F32InitFromBlob VECTOR_TYPE_FLOAT32 blob) rowid)]\<rparr> \<and>
   fst (vectorIndexCursorInit True diskAnnOpenIndex zIndexName) = fst (diskAnnOpenIndex zIndexName) \<and>
   (annCreateLog (vectorIndexCreate exec diskAnnCreateIndex pIdx pUsing) = [] \<or>
    (\<exists>nDims nOps.
       annCreateLog (vectorIndexCreate exec diskAnnCreateIndex pIdx pUsing) = [(zName pIdx, nDims, nOps)] \<and>
       status (vectorIndexCreate exec diskAnnCreateIndex pIdx pUsing) =
         diskAnnCreateIndex (zName pIdx) nDims nOps))"
proof (intro conjI)
  show "vectorIndexInsert F32InitFromBlob diskAnnInsert pCur [SQLITE_BLOB blob, SQLITE_INTEGER rowid] =
     Some \<lparr>insertStatus = 0,
           annInsertLog =
             [(index pCur, vectorInitStatic F32InitFromBlob VECTOR_TYPE_FLOAT32 blob, rowid,
               diskAnnInsert (index pCur) (vectorInitStatic F32InitFromBlob VECTOR_TYPE_FLOAT32 blob) rowid)]\<rparr>"
    by (simp add: vectorIndexInsert_def Let_def)
  show "fst (vectorIndexCursorInit True diskAnnOpenIndex zIndexName) = fst (diskAnnOpenIndex zIndexName)"
    by (simp add: vectorIndexCursorInit_def split: prod.splits)
  show "annCreateLog (vectorIndexCreate exec diskAnnCreateIndex pIdx pUsing) = [] \<or>
    (\<exists>nDims nOps.
       annCreateLog (vectorIndexCreate exec diskAnnCreateIndex pIdx pUsing) = [(zName pIdx, nDims, nOps)] \<and>
       status (vectorIndexCreate exec diskAnnCreateIndex pIdx pUsing) =
         diskAnnCreateIndex (zName pIdx) nDims nOps)"
    by (simp add: vectorIndexCreate_def Let_def split: sum.splits)
qed

theorem engine_status_propagation_witness:
  "vectorIndexInsert (\<lambda>b. vectorInit VECTOR_TYPE_FLOAT32 (length b div 4) (\<lambda>_. (0::32 word)))
      (\<lambda>h v rowid. 1) \<lparr>index = (5::nat)\<rparr> [SQLITE_BLOB [0, 0, 128, 63], SQLITE_INTEGER 42] =
     Some \<lparr>insertStatus = 0,
           annInsertLog =
             [(5, \<lparr>type = VECTOR_TYPE_FLOAT32, flags = VECTOR_FLAGS_STATIC, dims = 1, data = (\<lambda>_. 0)\<rparr>,
               42, 1)]\<rparr> \<and>
   fst (vectorIndexCursorInit True (\<lambda>n. (14, 0::nat)) ''idx'') = 14"
  using engine_status_propagation [of
      "\<lambda>b. vectorInit VECTOR_TYPE_FLOAT32 (length b div 4) (\<lambda>_. (0::32 word))"
      "\<lambda>h v rowid. 1" "\<lparr>index = (5::nat)\<rparr>" "[0, 0, 128, 63]" 42
      "\<lambda>n. (14, 0::nat)" "''idx''"]
  by (simp add: vectorInitStatic_def vectorInit_def)

subsection \<open>C6: the distance of two decoded inputs\<close>

text \<open>
  C6. For every pair of inputs that both decode successfully (both vectors allocated, two
  arguments given, both calls of \<^verbatim>\<open>vectorParse\<close> returning a value that is not negative):
  when the two decoded dimension counts differ, \<^verbatim>\<open>vectorDistanceCosFunc\<close> fails with the
  error "vectors must have the same length" (\<open>DimensionMismatch\<close>) and makes no call of
  the distance computation; when they are equal, it makes one call of the distance
  computation, on the two decoded vectors, and returns as a double what the dispatch of
  \<^verbatim>\<open>vectorDistanceCos\<close> yields: the value of the distance routine \<^verbatim>\<open>vectorF32DistanceCos\<close> on
  the two decoded vectors when the first still has the type \<open>VECTOR_TYPE_FLOAT32\<close>, and
  \<open>-1\<close> otherwise. The first decoded vector has that type whenever the first input is a
  text, and whenever the blob decoder leaves the type tag of the vector it fills as it
  was; the result is then the value of the distance routine on the two decoded vectors.
\<close>

theorem vectorDistanceCosFunc_dimensions:
  assumes "m1 = Some b1" and "m2 = Some b2" and "2 \<le> length argv"
    and "r1 = vectorParse AtoF F3ParseBlob (argv ! 0) (vectorInit VECTOR_TYPE_FLOAT32 MAX_VECTOR_SZ b1)"
    and "r2 = vectorParse AtoF F3ParseBlob (argv ! 1) (vectorInit VECTOR_TYPE_FLOAT32 MAX_VECTOR_SZ b2)"
    and "0 \<le> rc r1" and "0 \<le> rc r2"
  shows "(dims (vec r1) \<noteq> dims (vec r2) \<longrightarrow>
           vectorDistanceCosFunc AtoF F3ParseBlob F32DistanceCos m1 m2 argv =
             \<lparr>result = ResultErrorDimensionMismatch, distanceCalls = []\<rparr>) \<and>
         (dims (vec r1) = dims (vec r2) \<longrightarrow>
           vectorDistanceCosFunc AtoF F3ParseBlob F32DistanceCos m1 m2 argv =
             \<lparr>result = ResultDouble (if type (vec r1) = VECTOR_TYPE_FLOAT32
                                     then F32DistanceCos (vec r1) (vec r2) else - 1),
              distanceCalls = [(vec r1, vec r2)]\<rparr>) \<and>
         (dims (vec r1) = dims (vec r2) \<and>
          (\<forall>b. argv ! 0 = SQLITE_BLOB b \<longrightarrow>
             type (snd (F3ParseBlob (argv ! 0) (vectorInit VECTOR_TYPE_FLOAT32 MAX_VECTOR_SZ b1)))
               = VECTOR_TYPE_FLOAT32) \<longrightarrow>
           vectorDistanceCosFunc AtoF F3ParseBlob F32DistanceCos m1 m2 argv =
             \<lparr>result = ResultDouble (F32DistanceCos (vec r1) (vec r2)),
              distanceCalls = [(vec r1, vec r2)]\<rparr>)"
proof (intro conjI impI)
  assume "dims (vec r1) \<noteq> dims (vec r2)"
  with assms show "vectorDistanceCosFunc AtoF F3ParseBlob F32DistanceCos m1 m2 argv =
             \<lparr>result = ResultErrorDimensionMismatch, distanceCalls = []\<rparr>"
    by (simp add: vectorDistanceCosFunc_def vectorContextAlloc_def Let_def)
next
  assume "dims (vec r1) = dims (vec r2)"
  with assms show "vectorDistanceCosFunc AtoF F3ParseBlob F32DistanceCos m1 m2 argv =
             \<lparr>result = ResultDouble (if type (vec r1) = VECTOR_TYPE_FLOAT32
                                     then F32DistanceCos (vec r1) (vec r2) else - 1),
              distanceCalls = [(vec r1, vec r2)]\<rparr>"
    by (simp add: vectorDistanceCosFunc_def vectorContextAlloc_def vectorDistanceCos_def Let_def)
next
  assume a: "dims (vec r1) = dims (vec r2) \<and>
          (\<forall>b. argv ! 0 = SQLITE_BLOB b \<longrightarrow>
             type (snd (F3ParseBlob (argv ! 0) (vectorInit VECTOR_TYPE_FLOAT32 MAX_VECTOR_SZ b1)))
               = VECTOR_TYPE_FLOAT32)"
  have "type (vectorInit VECTOR_TYPE_FLOAT32 MAX_VECTOR_SZ b1) = VECTOR_TYPE_FLOAT32"
    by (simp add: vectorInit_def)
  with a have t: "type (vec r1) = VECTOR_TYPE_FLOAT32"
    unfolding assms(4) by (intro vectorParse_type) simp_all
  from a assms t show "vectorDistanceCosFunc AtoF F3ParseBlob F32DistanceCos m1 m2 argv =
             \<lparr>result = ResultDouble (F32DistanceCos (vec r1) (vec r2)),
              distanceCalls = [(vec r1, vec r2)]\<rparr>"
    by (simp add: vectorDistanceCosFunc_def vectorContextAlloc_def vectorDistanceCos_def Let_def)
qed

theorem vectorDistanceCosFunc_dimensions_witness:
  "vectorDistanceCosFunc specAtoF
      (\<lambda>a v. case a of SQLITE_BLOB b \<Rightarrow> (int (length b div 4), v\<lparr>dims := length b div 4\<rparr>)
                      | _ \<Rightarrow> (-1, v))
      (\<lambda>v1 v2. if data v1 0 = data v2 0 then 0 else (1::int))
      (Some (\<lambda>_. [])) (Some (\<lambda>_. []))
      [SQLITE_TEXT (Some ''[1,2]''), SQLITE_TEXT (Some ''[1]'')] =
     \<lparr>result = ResultErrorDimensionMismatch, distanceCalls = []\<rparr> \<and>
   result (vectorDistanceCosFunc specAtoF
      (\<lambda>a v. case a of SQLITE_BLOB b \<Rightarrow> (int (length b div 4), v\<lparr>dims := length b div 4\<rparr>)
                      | _ \<Rightarrow> (-1, v))
      (\<lambda>v1 v2. if data v1 0 = data v2 0 then 0 else (1::int))
      (Some (\<lambda>_. [])) (Some (\<lambda>_. []))
      [SQLITE_TEXT (Some ''[1,2]''), SQLITE_TEXT (Some ''[1,2]'')]) = ResultDouble 0 \<and>
   result (vectorDistanceCosFunc specAtoF
      (\<lambda>a v. case a of SQLITE_BLOB b \<Rightarrow> (int (length b div 4), v\<lparr>dims := length b div 4\<rparr>)
                      | _ \<Rightarrow> (-1, v))
      (\<lambda>v1 v2. if data v1 0 = data v2 0 then 0 else (1::int))
      (Some (\<lambda>_. [])) (Some (\<lambda>_. []))
      [SQLITE_TEXT (Some ''[1,2]''), SQLITE_TEXT (Some ''[2,1]'')]) = ResultDouble 1 \<and>
   result (vectorDistanceCosFunc specAtoF
      (\<lambda>a v. case a of SQLITE_BLOB b \<Rightarrow> (int (length b div 4), v\<lparr>dims := length b div 4\<rparr>)
                      | _ \<Rightarrow> (-1, v))
      (\<lambda>v1 v2. if data v1 0 = data v2 0 then 0 else (1::int))
      (Some (\<lambda>_. [])) (Some (\<lambda>_. []))
      [SQLITE_BLOB [0, 0, 128, 63], SQLITE_TEXT (Some ''[1]'')]) = ResultDouble 1"
proof -
  let ?v = "vectorInit VECTOR_TYPE_FLOAT32 MAX_VECTOR_SZ (\<lambda>_. [])"
  let ?B = "\<lambda>a (v :: string Vector). case a of
      SQLITE_BLOB b \<Rightarrow> (int (length b div 4), v\<lparr>dims := length b div 4\<rparr>) | _ \<Rightarrow> (-1, v)"
  let ?D = "\<lambda>(v1 :: string Vector) (v2 :: string Vector). if data v1 0 = data v2 0 then 0 else (1::int)"
  let ?P = "vectorParse specAtoF ?B"
  have sv: "?v = sampleVector" by (simp add: sampleVector_def)
  have tp: "type sampleVector = VECTOR_TYPE_FLOAT32"
    by (simp add: sampleVector_def vectorInit_def)
  have p12: "?P (SQLITE_TEXT (Some ''[1,2]'')) ?v =
      \<lparr>rc = 2, err = None,
       vec = sampleVector\<lparr>data := storeAll (data sampleVector) 0 [''1'', ''2''], dims := 2\<rparr>,
       elBufOverrun = False\<rparr>"
    unfolding sv using sample_parse_12 by (simp add: vectorParse_def)
  have p21: "?P (SQLITE_TEXT (Some ''[2,1]'')) ?v =
      \<lparr>rc = 2, err = None,
       vec = sampleVector\<lparr>data := storeAll (data sampleVector) 0 [''2'', ''1''], dims := 2\<rparr>,
       elBufOverrun = False\<rparr>"
    unfolding sv using sample_parse_21 by (simp add: vectorParse_def)
  have p1: "?P (SQLITE_TEXT (Some ''[1]'')) ?v =
      \<lparr>rc = 1, err = None,
       vec = sampleVector\<lparr>data := storeAll (data sampleVector) 0 [''1''], dims := 1\<rparr>,
       elBufOverrun = False\<rparr>"
    unfolding sv using sample_parse_1 by (simp add: vectorParse_def)
  have pb: "?P (SQLITE_BLOB [0, 0, 128, 63]) ?v =
      \<lparr>rc = 1, err = None, vec = sampleVector\<lparr>dims := 1\<rparr>, elBufOverrun = False\<rparr>"
    unfolding sv by (simp add: vectorParse_def vectorParseBlob_def tp)
  have d0: "data sampleVector 0 = []" by (simp add: sampleVector_def vectorInit_def)
  note T = vectorDistanceCosFunc_dimensions [where ?m1.0 = "Some (\<lambda>_. [])" and ?b1.0 = "\<lambda>_. []"
        and ?m2.0 = "Some (\<lambda>_. [])" and ?b2.0 = "\<lambda>_. []"
        and AtoF = specAtoF and F3ParseBlob = ?B and ?F32DistanceCos = ?D, OF refl refl _ refl refl]
  have a: "vectorDistanceCosFunc specAtoF ?B ?D (Some (\<lambda>_. [])) (Some (\<lambda>_. []))
      [SQLITE_TEXT (Some ''[1,2]''), SQLITE_TEXT (Some ''[1]'')] =
     \<lparr>result = ResultErrorDimensionMismatch, distanceCalls = []\<rparr>"
    using T [where argv = "[SQLITE_TEXT (Some ''[1,2]''), SQLITE_TEXT (Some ''[1]'')]"]
    by (simp add: p12 p1)
  have b: "result (vectorDistanceCosFunc specAtoF ?B ?D (Some (\<lambda>_. [])) (Some (\<lambda>_. []))
      [SQLITE_TEXT (Some ''[1,2]''), SQLITE_TEXT (Some ''[1,2]'')]) = ResultDouble 0"
    using T [where argv = "[SQLITE_TEXT (Some ''[1,2]''), SQLITE_TEXT (Some ''[1,2]'')]"]
    by (simp add: p12 tp)
  have c: "result (vectorDistanceCosFunc specAtoF ?B ?D (Some (\<lambda>_. [])) (Some (\<lambda>_. []))
      [SQLITE_TEXT (Some ''[1,2]''), SQLITE_TEXT (Some ''[2,1]'')]) = ResultDouble 1"
    using T [where argv = "[SQLITE_TEXT (Some ''[1,2]''), SQLITE_TEXT (Some ''[2,1]'')]"]
    by (simp add: p12 p21 tp)
  have d: "result (vectorDistanceCosFunc specAtoF ?B ?D (Some (\<lambda>_. [])) (Some (\<lambda>_. []))
      [SQLITE_BLOB [0, 0, 128, 63], SQLITE_TEXT (Some ''[1]'')]) = ResultDouble 1"
    using T [where argv = "[SQLITE_BLOB [0, 0, 128, 63], SQLITE_TEXT (Some ''[1]'')]"]
    by (simp add: pb p1 d0 tp)
  from a b c d show ?thesis by (intro conjI)
qed

subsection \<open>C7: the opening and the closing bracket\<close>

text \<open>
  C7, as amended. For every text input whose first non-whitespace character is not \<open>[\<close>
  (or that has none), decoding fails with \<open>MalformedLiteral\<close> and leaves the vector as it
  was. For every text input whose first non-whitespace character is \<open>[\<close> and that holds no
  \<open>]\<close>, decoding fails: with \<open>UnterminatedLiteral\<close> when the same text closed by \<open>]\<close>
  decodes, and otherwise with the element error (\<open>ElementTooLong\<close>, \<open>InvalidNumber\<close> or
  \<open>TooManyDimensions\<close>) that the closed text fails with. The claim as stated promises
  \<open>UnterminatedLiteral\<close> for every such input; the elements are checked before the closing
  bracket (see the counterexample).
\<close>

theorem vectorParseText_brackets:
  "(firstNonSpace z \<noteq> Some CHR ''['' \<longrightarrow>
      rc (vectorParseText AtoF (SQLITE_TEXT (Some z)) v) = -1 \<and>
      err (vectorParseText AtoF (SQLITE_TEXT (Some z)) v) = Some MalformedLiteral \<and>
      vec (vectorParseText AtoF (SQLITE_TEXT (Some z)) v) = v) \<and>
   (firstNonSpace z = Some CHR ''['' \<and> CHR '']'' \<notin> set z \<longrightarrow>
      rc (vectorParseText AtoF (SQLITE_TEXT (Some z)) v) = -1 \<and>
      err (vectorParseText AtoF (SQLITE_TEXT (Some z)) v) =
        (case err (vectorParseText AtoF (SQLITE_TEXT (Some (z @ '']''))) v) of
           None \<Rightarrow> Some UnterminatedLiteral
         | Some e \<Rightarrow> Some e) \<and>
      err (vectorParseText AtoF (SQLITE_TEXT (Some z)) v) \<in>
        {Some UnterminatedLiteral, Some ElementTooLong, Some InvalidNumber,
         Some TooManyDimensions})"
proof (intro conjI impI)
  assume a: "firstNonSpace z \<noteq> Some CHR ''[''"
  have "vectorParseText AtoF (SQLITE_TEXT (Some z)) v =
      \<lparr>rc = -1, err = Some MalformedLiteral, vec = v, elBufOverrun = False\<rparr>"
  proof (cases "dropWhile sqlite3Isspace z")
    case Nil
    then show ?thesis by (simp add: vectorParseText_def del: dropWhile_eq_Nil_conv)
  next
    case (Cons c z')
    with a have "c \<noteq> CHR ''[''" by (simp add: firstNonSpace_dropWhile)
    with Cons show ?thesis by (simp add: vectorParseText_def)
  qed
  then show "rc (vectorParseText AtoF (SQLITE_TEXT (Some z)) v) = -1"
    and "err (vectorParseText AtoF (SQLITE_TEXT (Some z)) v) = Some MalformedLiteral"
    and "vec (vectorParseText AtoF (SQLITE_TEXT (Some z)) v) = v"
    by simp_all
next
  assume a: "firstNonSpace z = Some CHR ''['' \<and> CHR '']'' \<notin> set z"
  then obtain body where b: "dropWhile sqlite3Isspace z = CHR ''['' # body"
    by (auto simp: firstNonSpace_dropWhile split: list.splits)
  then have "set (CHR ''['' # body) \<subseteq> set z" by (metis set_dropWhileD subsetI)
  with a have nb: "CHR '']'' \<notin> set body" and m: "CHR ''['' \<in> set z" by auto
  from m have d: "dropWhile sqlite3Isspace (z @ '']'') = CHR ''['' # body @ '']''"
    using dropWhile_append1 [of "CHR ''[''" z sqlite3Isspace "'']''"] b by simp
  let ?s = "\<lparr>elBuf = (\<lambda>_. CHR 0x00), bufidx = 0, vecidx = 0, elems = data v, overrun = False\<rparr> :: 'a parse_locals"
  have p1: "vectorParseText AtoF (SQLITE_TEXT (Some z)) v = parseBody AtoF v body ?s"
    by (simp add: vectorParseText_def b)
  have p2: "vectorParseText AtoF (SQLITE_TEXT (Some (z @ '']''))) v = parseBody AtoF v (body @ '']'') ?s"
    by (simp add: vectorParseText_def d)
  note u = parseBody_unterminated [OF nb, of AtoF v ?s]
  from u show "rc (vectorParseText AtoF (SQLITE_TEXT (Some z)) v) = -1"
    unfolding p1 by simp
  from u show e: "err (vectorParseText AtoF (SQLITE_TEXT (Some z)) v) =
        (case err (vectorParseText AtoF (SQLITE_TEXT (Some (z @ '']''))) v) of
           None \<Rightarrow> Some UnterminatedLiteral
         | Some e \<Rightarrow> Some e)"
    unfolding p1 p2 by simp
  from parseBody_errors [of AtoF v "body @ '']''" ?s]
  show "err (vectorParseText AtoF (SQLITE_TEXT (Some z)) v) \<in>
        {Some UnterminatedLiteral, Some ElementTooLong, Some InvalidNumber,
         Some TooManyDimensions}"
    unfolding e unfolding p2 by (auto split: option.splits)
qed

theorem vectorParseText_brackets_witness:
  "firstNonSpace ''1,2]'' \<noteq> Some CHR ''['' \<and>
   rc (vectorParseText specAtoF (SQLITE_TEXT (Some ''1,2]'')) sampleVector) = -1 \<and>
   err (vectorParseText specAtoF (SQLITE_TEXT (Some ''1,2]'')) sampleVector) = Some MalformedLiteral \<and>
   firstNonSpace '' [1,2'' = Some CHR ''['' \<and> CHR '']'' \<notin> set '' [1,2'' \<and>
   rc (vectorParseText specAtoF (SQLITE_TEXT (Some '' [1,2'')) sampleVector) = -1 \<and>
   err (vectorParseText specAtoF (SQLITE_TEXT (Some '' [1,2'')) sampleVector) = Some UnterminatedLiteral"
proof -
  have f1: "firstNonSpace ''1,2]'' \<noteq> Some CHR ''[''" by code_simp
  have f2: "firstNonSpace '' [1,2'' = Some CHR ''['' \<and> CHR '']'' \<notin> set '' [1,2''"
    by (simp add: firstNonSpace_def sqlite3Isspace_def)
  have "sqlite3Isspace CHR '' ''" by (simp add: sqlite3Isspace_def)
  then have "vectorParseText specAtoF (SQLITE_TEXT (Some ('' [1,2'' @ '']''))) sampleVector =
      vectorParseText specAtoF (SQLITE_TEXT (Some ''[1,2]'')) sampleVector"
    by (simp add: vectorParseText_def)
  then have c: "err (vectorParseText specAtoF (SQLITE_TEXT (Some ('' [1,2'' @ '']''))) sampleVector) = None"
    by (simp only: sample_parse_12) simp
  from vectorParseText_brackets [of "''1,2]''" specAtoF sampleVector] f1
  have a: "rc (vectorParseText specAtoF (SQLITE_TEXT (Some ''1,2]'')) sampleVector) = -1 \<and>
   err (vectorParseText specAtoF (SQLITE_TEXT (Some ''1,2]'')) sampleVector) = Some MalformedLiteral"
    by blast
  from vectorParseText_brackets [of "'' [1,2''" specAtoF sampleVector] f2 c
  have b: "rc (vectorParseText specAtoF (SQLITE_TEXT (Some '' [1,2'')) sampleVector) = -1 \<and>
   err (vectorParseText specAtoF (SQLITE_TEXT (Some '' [1,2'')) sampleVector) = Some UnterminatedLiteral"
    by simp
  from f1 f2 a b show ?thesis by blast
qed

text \<open>
  The claim as stated fails: \<open>[1,x\<close> begins with \<open>[\<close> and holds no \<open>]\<close>, and decoding fails
  with \<open>InvalidNumber\<close>, not with \<open>UnterminatedLiteral\<close>.
\<close>

theorem vectorParseText_brackets_counterexample:
  "firstNonSpace ''[1,x'' = Some CHR ''['' \<and> CHR '']'' \<notin> set ''[1,x'' \<and>
   err (vectorParseText specAtoF (SQLITE_TEXT (Some ''[1,x'')) sampleVector) = Some InvalidNumber \<and>
   err (vectorParseText specAtoF (SQLITE_TEXT (Some ''[1,x'')) sampleVector) \<noteq> Some UnterminatedLiteral"
  by (simp add: parse_1x_err firstNonSpace_def sqlite3Isspace_def)

subsection \<open>C8: the declared type of the indexed column\<close>

text \<open>
  C8, as amended. The type validation of \<^verbatim>\<open>vectorIndexCreate\<close> rests on
  \<^verbatim>\<open>parseVectorDims\<close>. For every declared type string that begins with \<open>FLOAT32(\<close> in any
  letter case, goes on with the decimal digits of a number \<open>N\<close> (at least one digit, \<open>N\<close>
  below \<open>2^31\<close>) and then with \<open>)\<close>, whatever follows that \<open>)\<close>, \<^verbatim>\<open>parseVectorDims\<close> returns
  \<open>N\<close>; for every string that lacks the prefix, holds no \<open>)\<close> after it or holds a character
  other than a digit before the first \<open>)\<close>, it returns \<open>-1\<close>. When index creation reaches
  the validation (first token recognized, shadow table created, one key column with the
  declared type), a negative result fails with \<open>InvalidVectorType\<close> and any other result is
  the dimension count handed to \<^verbatim>\<open>diskAnnCreateIndex\<close>. The claim as stated accepts the
  strings \<open>FLOAT32(<N>)\<close> only (see the counterexample).
\<close>

theorem parseVectorDims_form:
  "(float32Form z \<and> float32Digits z \<noteq> [] \<and> decimalValue (float32Digits z) < 2 ^ 31 \<longrightarrow>
      parseVectorDims z = int (decimalValue (float32Digits z))) \<and>
   (\<not> float32Form z \<longrightarrow> parseVectorDims z = -1) \<and>
   (pUsing = tok # a \<and> sqlite3_stricmp tok ''diskann_cosine_ops'' = 0 \<and>
    exec (''CREATE TABLE IF NOT EXISTS '' @ zName pIdx @ ''_shadow (data BLOB)'') = SQLITE_OK \<and>
    nKeyCol pIdx = 1 \<and> aiColumn pIdx = i # cols \<and> i < length (aCol (pTable pIdx)) \<and>
    zCnType (aCol (pTable pIdx) ! i) = Some z \<longrightarrow>
      vectorIndexCreate exec diskAnnCreateIndex pIdx pUsing =
        (if parseVectorDims z < 0
         then \<lparr>status = -1, errorMsg = Some InvalidVectorType,
               execLog = [''CREATE TABLE IF NOT EXISTS '' @ zName pIdx @ ''_shadow (data BLOB)''],
               annCreateLog = []\<rparr>
         else \<lparr>status = diskAnnCreateIndex (zName pIdx) (parseVectorDims z) VECTOR_DISTANCE_COS,
               errorMsg = None,
               execLog = [''CREATE TABLE IF NOT EXISTS '' @ zName pIdx @ ''_shadow (data BLOB)''],
               annCreateLog = [(zName pIdx, parseVectorDims z, VECTOR_DISTANCE_COS)]\<rparr>))"
proof (intro conjI impI)
  assume a: "float32Form z \<and> float32Digits z \<noteq> [] \<and> decimalValue (float32Digits z) < 2 ^ 31"
  then have d: "list_all sqlite3Isdigit (float32Digits z)" by (simp add: float32Form_def)
  from horner_word [OF d, of 0]
  have "foldl (\<lambda>n c. n * 10 + (of_char c - of_char CHR ''0'')) (0 :: 32 word) (float32Digits z)
      = of_nat (decimalValue (float32Digits z))"
    by (simp add: decimalValue_def)
  with a show "parseVectorDims z = int (decimalValue (float32Digits z))"
    by (simp add: parseVectorDims_def strnicmp_prefix parseDimsLoop_eq float32Form_def
        float32Digits_def [symmetric] sint_of_nat_small)
next
  assume "\<not> float32Form z"
  then show "parseVectorDims z = -1"
    by (auto simp: parseVectorDims_def strnicmp_prefix parseDimsLoop_eq float32Form_def
        float32Digits_def)
next
  assume "pUsing = tok # a \<and> sqlite3_stricmp tok ''diskann_cosine_ops'' = 0 \<and>
    exec (''CREATE TABLE IF NOT EXISTS '' @ zName pIdx @ ''_shadow (data BLOB)'') = SQLITE_OK \<and>
    nKeyCol pIdx = 1 \<and> aiColumn pIdx = i # cols \<and> i < length (aCol (pTable pIdx)) \<and>
    zCnType (aCol (pTable pIdx) ! i) = Some z"
  then show "vectorIndexCreate exec diskAnnCreateIndex pIdx pUsing =
        (if parseVectorDims z < 0
         then \<lparr>status = -1, errorMsg = Some InvalidVectorType,
               execLog = [''CREATE TABLE IF NOT EXISTS '' @ zName pIdx @ ''_shadow (data BLOB)''],
               annCreateLog = []\<rparr>
         else \<lparr>status = diskAnnCreateIndex (zName pIdx) (parseVectorDims z) VECTOR_DISTANCE_COS,
               errorMsg = None,
               execLog = [''CREATE TABLE IF NOT EXISTS '' @ zName pIdx @ ''_shadow (data BLOB)''],
               annCreateLog = [(zName pIdx, parseVectorDims z, VECTOR_DISTANCE_COS)]\<rparr>)"
    by (simp add: vectorIndexCreate_def sqlite3ColumnType_def Let_def)
qed

theorem parseVectorDims_form_witness:
  "float32Form ''float32(128) not null'' \<and>
   float32Digits ''float32(128) not null'' = ''128'' \<and>
   decimalValue ''128'' = 128 \<and>
   parseVectorDims ''float32(128) not null'' = 128 \<and>
   \<not> float32Form ''TEXT'' \<and>
   parseVectorDims ''TEXT'' = -1 \<and>
   vectorIndexCreate (\<lambda>_. 0) (\<lambda>_ _ _. 0) (sampleIndex ''float32(128) not null'') [''diskann_cosine_ops''] =
     \<lparr>status = 0, errorMsg = None,
      execLog = [''CREATE TABLE IF NOT EXISTS idx_shadow (data BLOB)''],
      annCreateLog = [(''idx'', 128, VECTOR_DISTANCE_COS)]\<rparr> \<and>
   vectorIndexCreate (\<lambda>_. 0) (\<lambda>_ _ _. 0) (sampleIndex ''TEXT'') [''diskann_cosine_ops''] =
     \<lparr>status = -1, errorMsg = Some InvalidVectorType,
      execLog = [''CREATE TABLE IF NOT EXISTS idx_shadow (data BLOB)''],
      annCreateLog = []\<rparr>"
proof -
  note t1 = parseVectorDims_form [of "''float32(128) not null''" "[''diskann_cosine_ops'']"
      "''diskann_cosine_ops''" "[]" "\<lambda>_. 0" "sampleIndex ''float32(128) not null''" 0 "[]" "\<lambda>_ _ _. 0"]
  note t2 = parseVectorDims_form [of "''TEXT''" "[''diskann_cosine_ops'']"
      "''diskann_cosine_ops''" "[]" "\<lambda>_. 0" "sampleIndex ''TEXT''" 0 "[]" "\<lambda>_ _ _. 0"]
  have p1: "parseVectorDims ''float32(128) not null'' = 128"
    using t1 by (simp add: float32Form_samples)
  have p2: "parseVectorDims ''TEXT'' = -1"
    using t2 by (simp add: float32Form_samples)
  have c1: "vectorIndexCreate (\<lambda>_. 0) (\<lambda>_ _ _. 0) (sampleIndex ''float32(128) not null'') [''diskann_cosine_ops''] =
     \<lparr>status = 0, errorMsg = None,
      execLog = [''CREATE TABLE IF NOT EXISTS idx_shadow (data BLOB)''],
      annCreateLog = [(''idx'', 128, VECTOR_DISTANCE_COS)]\<rparr>"
    using t1 by (simp add: p1 sampleIndex_def stricmp_cos SQLITE_OK_def)
  have c2: "vectorIndexCreate (\<lambda>_. 0) (\<lambda>_ _ _. 0) (sampleIndex ''TEXT'') [''diskann_cosine_ops''] =
     \<lparr>status = -1, errorMsg = Some InvalidVectorType,
      execLog = [''CREATE TABLE IF NOT EXISTS idx_shadow (data BLOB)''],
      annCreateLog = []\<rparr>"
    using t2 by (simp add: p2 sampleIndex_def stricmp_cos SQLITE_OK_def)
  from p1 p2 c1 c2 show ?thesis by (simp add: float32Form_samples)
qed

text \<open>
  The claim as stated fails: \<open>FLOAT32(3)xyz\<close> is not of the form \<open>FLOAT32(<N>)\<close>, yet the
  validation succeeds and the index is created with 3 dimensions.
\<close>

theorem parseVectorDims_form_counterexample:
  "\<not> specVectorType ''FLOAT32(3)xyz'' \<and>
   parseVectorDims ''FLOAT32(3)xyz'' = 3 \<and>
   vectorIndexCreate (\<lambda>_. 0) (\<lambda>_ _ _. 0) (sampleIndex ''FLOAT32(3)xyz'') [''diskann_cosine_ops''] =
     \<lparr>status = 0, errorMsg = None,
      execLog = [''CREATE TABLE IF NOT EXISTS idx_shadow (data BLOB)''],
      annCreateLog = [(''idx'', 3, VECTOR_DISTANCE_COS)]\<rparr>"
  by (simp add: specVectorType_def vectorIndexCreate_def sampleIndex_def sqlite3ColumnType_def
      parseVectorDims_samples stricmp_cos SQLITE_OK_def VECTOR_DISTANCE_COS_def Let_def)

subsection \<open>C9: formatting an element\<close>

text \<open>
  C9. The claim: \<^verbatim>\<open>formatF32\<close> produces, as its output string, the value formatted as a
  64-bit integer when it is one and in scientific notation with 6 fractional digits
  otherwise, and returns the length of that text. The code chooses the text as the claim
  says and returns its length, but it prints the text into its local array \<^verbatim>\<open>tmp\<close>: the
  caller's array \<^verbatim>\<open>str\<close> is never written and is after the call what it was before, for
  every value.
\<close>

theorem formatF32_leaves_str:
  "strAfter (formatF32 toU64 ofU64 feq fmtLld fmtE num str) = str \<and>
   returned (formatF32 toU64 ofU64 feq fmtLld fmtE num str) =
     length (if isInteger toU64 ofU64 feq num then fmtLld (toU64 num) else fmtE num) \<and>
   tmpLocal (formatF32 toU64 ofU64 feq fmtLld fmtE num str) =
     take 31 (if isInteger toU64 ofU64 feq num then fmtLld (toU64 num) else fmtE num)"
  by (simp add: formatF32_def)

theorem formatF32_leaves_str_witness:
  "strAfter (formatF32 (\<lambda>x. word_of_int x) uint (=) (\<lambda>w. ''1'') (\<lambda>x. ''1.000000e+00'') (1::int) ''????'')
     = ''????'' \<and>
   returned (formatF32 (\<lambda>x. word_of_int x) uint (=) (\<lambda>w. ''1'') (\<lambda>x. ''1.000000e+00'') (1::int) ''????'')
     = 1"
  using formatF32_leaves_str [of "\<lambda>x. word_of_int x" uint "(=)" "\<lambda>w. ''1''" "\<lambda>x. ''1.000000e+00''" "1::int" "''????''"]
  by (simp add: isInteger_def)

subsection \<open>C10: what follows the closing bracket\<close>

text \<open>
  C10. Decoding stops at the first \<open>]\<close> and ignores every character after it: whatever
  the text \<open>z\<close> before a \<open>]\<close> and the text \<open>rest\<close> after it, decoding \<open>z ] rest\<close> gives what
  decoding \<open>z ]\<close> gives (in particular when \<open>z\<close> begins with \<open>[\<close> and holds no \<open>]\<close>, so that
  the bracket is the first one). The input \<open>[1,2]xyz\<close> decodes as a vector of 2 dimensions
  with the elements 1 and 2, without error.
\<close>

theorem decoding_stops_at_first_bracket:
  "vectorParseText AtoF (SQLITE_TEXT (Some (z @ CHR '']'' # rest))) v =
     vectorParseText AtoF (SQLITE_TEXT (Some (z @ '']''))) v \<and>
   rc (vectorParseText specAtoF (SQLITE_TEXT (Some ''[1,2]xyz'')) sampleVector) = 2 \<and>
   err (vectorParseText specAtoF (SQLITE_TEXT (Some ''[1,2]xyz'')) sampleVector) = None \<and>
   dims (vec (vectorParseText specAtoF (SQLITE_TEXT (Some ''[1,2]xyz'')) sampleVector)) = 2 \<and>
   data (vec (vectorParseText specAtoF (SQLITE_TEXT (Some ''[1,2]xyz'')) sampleVector)) 0 = ''1'' \<and>
   data (vec (vectorParseText specAtoF (SQLITE_TEXT (Some ''[1,2]xyz'')) sampleVector)) 1 = ''2''"
proof -
  have two: "validElement specAtoF ''2''" "length (strip ''2'') \<le> MAX_FLOAT_CHAR_SZ"
    "snd (specAtoF (strip ''2'')) = ''2''"
    by code_simp+
  have v: "\<forall>e\<in>set [''1'', ''2'']. validElement specAtoF e \<and> length (strip e) \<le> MAX_FLOAT_CHAR_SZ"
    "snd (specAtoF (strip ''1'')) = ''1''" "snd (specAtoF (strip ''2'')) = ''2''"
    by (simp_all add: specAtoF_samples two)
  from parse_literal_aux [OF v(1), of "''xyz''" sampleVector]
  have "vectorParseText specAtoF (SQLITE_TEXT (Some ''[1,2]xyz'')) sampleVector =
      \<lparr>rc = 2, err = None,
       vec = sampleVector\<lparr>data := storeAll (data sampleVector) 0 [''1'', ''2''], dims := 2\<rparr>,
       elBufOverrun = False\<rparr>"
    by (simp add: MAX_VECTOR_SZ_def v)
  then have "rc (vectorParseText specAtoF (SQLITE_TEXT (Some ''[1,2]xyz'')) sampleVector) = 2 \<and>
   err (vectorParseText specAtoF (SQLITE_TEXT (Some ''[1,2]xyz'')) sampleVector) = None \<and>
   dims (vec (vectorParseText specAtoF (SQLITE_TEXT (Some ''[1,2]xyz'')) sampleVector)) = 2 \<and>
   data (vec (vectorParseText specAtoF (SQLITE_TEXT (Some ''[1,2]xyz'')) sampleVector)) 0 = ''1'' \<and>
   data (vec (vectorParseText specAtoF (SQLITE_TEXT (Some ''[1,2]xyz'')) sampleVector)) 1 = ''2''"
    by simp
  with vectorParseText_ignores_rest [of AtoF z rest v] show ?thesis by (rule conjI)
qed

theorem decoding_stops_at_first_bracket_witness:
  "vectorParseText specAtoF (SQLITE_TEXT (Some ''[1,2]xyz'')) sampleVector =
     vectorParseText specAtoF (SQLITE_TEXT (Some ''[1,2]'')) sampleVector \<and>
   rc (vectorParseText specAtoF (SQLITE_TEXT (Some ''[1,2]xyz'')) sampleVector) = 2"
proof -
  have e: "''[1,2'' @ CHR '']'' # ''xyz'' = ''[1,2]xyz''" "''[1,2'' @ '']'' = ''[1,2]''" by simp_all
  from decoding_stops_at_first_bracket [of specAtoF "''[1,2''" "''xyz''" sampleVector]
  show ?thesis unfolding e by blast
qed

end
